theory Spec2Isabelle
  imports Main "HOL-Library.AList"
begin

section \<open>JSON values and the Python operations the clients apply to them\<close>

text \<open>
  The clients of \<^verbatim>\<open>pyarr/lidarr.py\<close> and \<^verbatim>\<open>pyarr/radarr.py\<close> hand decoded JSON
  around: \<^verbatim>\<open>None\<close>, booleans, integers, strings, lists and dictionaries. A dictionary
  is an association list in insertion order; \<open>AList.update\<close> is Python's item
  assignment (an existing key keeps its place, a new key goes last) and \<open>map_of\<close>
  is the lookup. Fractional numbers are never inspected by the code and are left out.
\<close>

datatype json =
    JNull
  | JBool bool
  | JInt int
  | JStr string
  | JList "json list"
  | JObj "(string \<times> json) list"

text \<open>
  Every exception the modelled code can raise or let through: the three it raises
  itself, the ones the transport raises on a failed request, and the Python built-ins
  that an index or item access raises.
\<close>

datatype pyarr_error =
    PyarrMissingArgument string
  | PyarrMissingProfile string
  | PyarrRecordNotFound string
  | PyarrResourceNotFound string
  | PyarrConnectionError string
  | IndexError
  | KeyError
  | TypeError

type_synonym 'a result = "pyarr_error + 'a"

definition rbind :: "'a result \<Rightarrow> ('a \<Rightarrow> 'b result) \<Rightarrow> 'b result" where
  "rbind r f = (case r of Inl e \<Rightarrow> Inl e | Inr x \<Rightarrow> f x)"

text \<open>Python truthiness, as used by \<^verbatim>\<open>if movies:\<close>.\<close>

fun truthy :: "json \<Rightarrow> bool" where
  "truthy JNull = False"
| "truthy (JBool b) = b"
| "truthy (JInt i) = (i \<noteq> 0)"
| "truthy (JStr s) = (s \<noteq> [])"
| "truthy (JList xs) = (xs \<noteq> [])"
| "truthy (JObj d) = (d \<noteq> [])"

text \<open>\<^verbatim>\<open>x[0]\<close>: the first element of a list (or character of a string), IndexError when
  there is none, KeyError on a dictionary (decoded JSON has string keys only) and
  TypeError on a value that cannot be subscripted.\<close>

fun getitem0 :: "json \<Rightarrow> json result" where
  "getitem0 (JList []) = Inl IndexError"
| "getitem0 (JList (x # xs)) = Inr x"
| "getitem0 (JStr []) = Inl IndexError"
| "getitem0 (JStr (c # cs)) = Inr (JStr [c])"
| "getitem0 (JObj d) = Inl KeyError"
| "getitem0 JNull = Inl TypeError"
| "getitem0 (JBool b) = Inl TypeError"
| "getitem0 (JInt i) = Inl TypeError"

text \<open>\<^verbatim>\<open>x["key"]\<close>: defined on dictionaries only, KeyError on a missing key.\<close>

fun getitem :: "json \<Rightarrow> string \<Rightarrow> json result" where
  "getitem (JObj d) k = (case map_of d k of None \<Rightarrow> Inl KeyError | Some v \<Rightarrow> Inr v)"
| "getitem JNull k = Inl TypeError"
| "getitem (JBool b) k = Inl TypeError"
| "getitem (JInt i) k = Inl TypeError"
| "getitem (JStr s) k = Inl TypeError"
| "getitem (JList xs) k = Inl TypeError"

text \<open>\<^verbatim>\<open>x["key"] = v\<close>: defined on dictionaries only.\<close>

fun setitem :: "json \<Rightarrow> string \<Rightarrow> json \<Rightarrow> json result" where
  "setitem (JObj d) k v = Inr (JObj (AList.update k v d))"
| "setitem JNull k v = Inl TypeError"
| "setitem (JBool b) k v = Inl TypeError"
| "setitem (JInt i) k v = Inl TypeError"
| "setitem (JStr s) k v = Inl TypeError"
| "setitem (JList xs) k v = Inl TypeError"

text \<open>\<^verbatim>\<open>str(i)\<close> and \<^verbatim>\<open>f"{i}"\<close> for an integer: decimal digits, a minus sign when
  negative.\<close>

definition digit_char :: "nat \<Rightarrow> char" where
  "digit_char n = ''0123456789'' ! (n mod 10)"

fun str_nat :: "nat \<Rightarrow> string" where
  "str_nat n = (if n < 10 then [digit_char n] else str_nat (n div 10) @ [digit_char n])"

declare str_nat.simps [simp del]

definition str_int :: "int \<Rightarrow> string" where
  "str_int i = (if i < 0 then CHR ''-'' # str_nat (nat (- i)) else str_nat (nat i))"

text \<open>\<^verbatim>\<open>str(b)\<close> for a boolean.\<close>

definition str_bool :: "bool \<Rightarrow> string" where
  "str_bool b = (if b then ''True'' else ''False'')"

fun str_opt_bool :: "bool option \<Rightarrow> string" where
  "str_opt_bool None = ''None''"
| "str_opt_bool (Some b) = str_bool b"

text \<open>The name \<^verbatim>\<open>print(type(x))\<close> shows.\<close>

fun type_repr :: "json \<Rightarrow> string" where
  "type_repr JNull = ''<class 'NoneType'>''"
| "type_repr (JBool b) = ''<class 'bool'>''"
| "type_repr (JInt i) = ''<class 'int'>''"
| "type_repr (JStr s) = ''<class 'str'>''"
| "type_repr (JList xs) = ''<class 'list'>''"
| "type_repr (JObj d) = ''<class 'dict'>''"

text \<open>An identifier argument of type \<^verbatim>\<open>Union[int, list]\<close>.\<close>

datatype ids = Single int | Many "int list"

definition ids_json :: "int list \<Rightarrow> json" where
  "ids_json xs = JList (map JInt xs)"


section \<open>Requests, the transport and the observable effects of a call\<close>

datatype http_method = GET | POST | PUT | DELETE

record request =
  req_method :: http_method
  req_ver :: string
  req_path :: string
  req_params :: "(string \<times> json) list"
  req_data :: "json option"

datatype warning_category = DeprecationWarning

text \<open>
  What a call does besides returning: requests handed to the transport, warnings issued
  through \<^verbatim>\<open>warnings.warn\<close> and lines printed. The world is the log of these events,
  oldest first.
\<close>

datatype event =
    Sent request
  | Warned warning_category string
  | Printed string

type_synonym world = "event list"

fun sent :: "event list \<Rightarrow> request list" where
  "sent [] = []"
| "sent (Sent r # es) = r # sent es"
| "sent (Warned c m # es) = sent es"
| "sent (Printed s # es) = sent es"

fun posts :: "request list \<Rightarrow> request list" where
  "posts [] = []"
| "posts (r # rs) = (if req_method r = POST then r # posts rs else posts rs)"

text \<open>The events a call added to the world it started in.\<close>

definition issued :: "world \<Rightarrow> world \<Rightarrow> event list" where
  "issued w w' = drop (length w) w'"

text \<open>
  The transport is the external collaborator: given the requests made so far and the
  present one it answers with decoded JSON or raises. It is a parameter of everything
  below.
\<close>

type_synonym transport = "request list \<Rightarrow> request \<Rightarrow> json result"

type_synonym 'a action = "world \<Rightarrow> 'a result \<times> world"

definition lift :: "'a result \<Rightarrow> 'a action" where
  "lift r w = (r, w)"

definition and_then :: "'a action \<Rightarrow> ('a \<Rightarrow> 'b action) \<Rightarrow> 'b action" where
  "and_then m f w = (case m w of (Inl e, w') \<Rightarrow> (Inl e, w') | (Inr x, w') \<Rightarrow> f x w')"

definition warn :: "string \<Rightarrow> warning_category \<Rightarrow> unit action" where
  "warn msg cat w = (Inr (), w @ [Warned cat msg])"

definition print :: "string \<Rightarrow> unit action" where
  "print s w = (Inr (), w @ [Printed s])"

text \<open>A client instance: the version prefix set by the constructor and the session.\<close>

record client =
  ver_uri :: string
  session :: transport

text \<open>
  Modelled from the spec: the base client's helpers \<^verbatim>\<open>_get\<close>, \<^verbatim>\<open>_post\<close>, \<^verbatim>\<open>_put\<close>
  and \<^verbatim>\<open>_delete\<close> live in the request handler, which is not among the sources. By
  section 4.1 of the spec they build the path from the version prefix and the path
  fragment, attach the query parameters and the JSON body, forward to the transport and
  return its decoded answer, letting its errors through. A call that passes no
  \<^verbatim>\<open>params\<close> (or passes \<^verbatim>\<open>None\<close>) sends the empty query.
\<close>

definition send :: "client \<Rightarrow> http_method \<Rightarrow> string \<Rightarrow> string \<Rightarrow>
    (string \<times> json) list option \<Rightarrow> json option \<Rightarrow> json action" where
  "send self m path ver params data w =
     (let r = \<lparr>req_method = m, req_ver = ver, req_path = path,
                req_params = (case params of None \<Rightarrow> [] | Some ps \<Rightarrow> ps),
                req_data = data\<rparr>
      in (session self (sent w) r, w @ [Sent r]))"

definition req_get :: "client \<Rightarrow> string \<Rightarrow> string \<Rightarrow> (string \<times> json) list option \<Rightarrow> json action" where
  "req_get self path ver params = send self GET path ver params None"

definition req_post :: "client \<Rightarrow> string \<Rightarrow> string \<Rightarrow> (string \<times> json) list option \<Rightarrow>
    json option \<Rightarrow> json action" where
  "req_post self path ver params data = send self POST path ver params data"

definition req_put :: "client \<Rightarrow> string \<Rightarrow> string \<Rightarrow> (string \<times> json) list option \<Rightarrow>
    json option \<Rightarrow> json action" where
  "req_put self path ver params data = send self PUT path ver params data"

definition req_delete :: "client \<Rightarrow> string \<Rightarrow> string \<Rightarrow> (string \<times> json) list option \<Rightarrow>
    json option \<Rightarrow> json action" where
  "req_delete self path ver params data = send self DELETE path ver params data"

text \<open>The full path of a request as the spec writes it: \<^verbatim>\<open>/v1/rootfolder\<close>.\<close>

definition full_path :: "request \<Rightarrow> string" where
  "full_path r = req_ver r @ ''/'' @ req_path r"


section \<open>The music-service client (\<^verbatim>\<open>pyarr/lidarr.py\<close>)\<close>

definition LidarrAPI :: "transport \<Rightarrow> client" where
  "LidarrAPI t = \<lparr>ver_uri = ''/v1'', session = t\<rparr>"

text \<open>\<^verbatim>\<open>defaultTags or []\<close>: an omitted or empty list gives the empty list.\<close>

definition lidarr_add_root_folder :: "client \<Rightarrow> string \<Rightarrow> string \<Rightarrow> int \<Rightarrow> int \<Rightarrow>
    int list option \<Rightarrow> json action" where
  "lidarr_add_root_folder self name path qualityProfile metadataProfile defaultTags =
     (let folder_json = JObj
        [(''defaultTags'',
            (case defaultTags of None \<Rightarrow> JList []
             | Some ts \<Rightarrow> if ts = [] then JList [] else ids_json ts)),
         (''defaultQualityProfileId'', JInt qualityProfile),
         (''defaultMetadataProfileId'', JInt metadataProfile),
         (''name'', JStr name),
         (''path'', JStr path)]
      in req_post self ''rootfolder'' (ver_uri self) None (Some folder_json))"

text \<open>Truthiness of an optional argument (\<^verbatim>\<open>if page:\<close>) and the value it carries.\<close>

fun truthy_int :: "int option \<Rightarrow> bool" where
  "truthy_int None = False"
| "truthy_int (Some i) = (i \<noteq> 0)"

fun truthy_str :: "string option \<Rightarrow> bool" where
  "truthy_str None = False"
| "truthy_str (Some s) = (s \<noteq> [])"

fun truthy_bool :: "bool option \<Rightarrow> bool" where
  "truthy_bool None = False"
| "truthy_bool (Some b) = b"

fun opt_int :: "int option \<Rightarrow> json" where
  "opt_int None = JNull"
| "opt_int (Some i) = JInt i"

fun opt_str :: "string option \<Rightarrow> json" where
  "opt_str None = JNull"
| "opt_str (Some s) = JStr s"

fun opt_bool :: "bool option \<Rightarrow> json" where
  "opt_bool None = JNull"
| "opt_bool (Some b) = JBool b"

text \<open>\<^verbatim>\<open>try: ... except IndexError: raise e\<close> around an action.\<close>

definition except_IndexError :: "'a action \<Rightarrow> pyarr_error \<Rightarrow> 'a action" where
  "except_IndexError m e w =
     (case m w of (r, w') \<Rightarrow> (if r = Inl IndexError then Inl e else r, w'))"

definition lookup_artist :: "client \<Rightarrow> string \<Rightarrow> json action" where
  "lookup_artist self term =
     req_get self ''artist/lookup'' (ver_uri self) (Some [(''term'', JStr term)])"

definition lookup_album :: "client \<Rightarrow> string \<Rightarrow> json action" where
  "lookup_album self term =
     req_get self ''album/lookup'' (ver_uri self) (Some [(''term'', JStr term)])"

definition get_metadata_profile :: "client \<Rightarrow> int option \<Rightarrow> json action" where
  "get_metadata_profile self ident =
     req_get self
       (''metadataprofile'' @
          (case ident of None \<Rightarrow> [] | Some i \<Rightarrow> if i \<noteq> 0 then ''/'' @ str_int i else []))
       (ver_uri self) None"

text \<open>
  Modelled from the spec: \<^verbatim>\<open>get_quality_profile\<close> is a method of the base client,
  which is not among the sources. By section 4.2 of the spec it fetches the list of
  configured quality profiles; it is taken to mirror \<^verbatim>\<open>get_metadata_profile\<close> on the
  \<^verbatim>\<open>qualityprofile\<close> resource.
\<close>

definition get_quality_profile :: "client \<Rightarrow> int option \<Rightarrow> json action" where
  "get_quality_profile self ident =
     req_get self
       (''qualityprofile'' @
          (case ident of None \<Rightarrow> [] | Some i \<Rightarrow> if i \<noteq> 0 then ''/'' @ str_int i else []))
       (ver_uri self) None"

text \<open>\<^verbatim>\<open>self.get_quality_profile()[0]["id"]\<close> and its metadata twin.\<close>

definition first_quality_profile_id :: "client \<Rightarrow> json action" where
  "first_quality_profile_id self =
     and_then (get_quality_profile self None)
       (\<lambda>ps. lift (rbind (getitem0 ps) (\<lambda>p. getitem p ''id'')))"

definition first_metadata_profile_id :: "client \<Rightarrow> json action" where
  "first_metadata_profile_id self =
     and_then (get_metadata_profile self None)
       (\<lambda>ps. lift (rbind (getitem0 ps) (\<lambda>p. getitem p ''id'')))"

text \<open>\<^verbatim>\<open>artist_monitor\<close> is a member of \<^verbatim>\<open>LidarrArtistMonitor\<close>, an enumeration of
  strings declared outside the sources at hand; the model carries its string value.\<close>

text \<open>The two blocks that open both \<^verbatim>\<open>_artist_json\<close> and \<^verbatim>\<open>_album_json\<close>:
  \<^verbatim>\<open>if quality_profile_id is None: try: quality_profile_id = ...[0]["id"] except IndexError:
  raise PyarrMissingProfile(...)\<close>, and the same for the metadata profile. A profile id
  the caller supplies is used as it is.\<close>

definition default_quality_profile :: "client \<Rightarrow> int option \<Rightarrow> json action" where
  "default_quality_profile self quality_profile_id =
     (case quality_profile_id of
        None \<Rightarrow> except_IndexError (first_quality_profile_id self)
                  (PyarrMissingProfile ''There is no Quality Profile setup'')
      | Some q \<Rightarrow> lift (Inr (JInt q)))"

definition default_metadata_profile :: "client \<Rightarrow> int option \<Rightarrow> json action" where
  "default_metadata_profile self metadata_profile_id =
     (case metadata_profile_id of
        None \<Rightarrow> except_IndexError (first_metadata_profile_id self)
                  (PyarrMissingProfile ''There is no Metadata Profile setup'')
      | Some m \<Rightarrow> lift (Inr (JInt m)))"

definition artist_json :: "client \<Rightarrow> string \<Rightarrow> string \<Rightarrow> int option \<Rightarrow> int option \<Rightarrow>
    bool \<Rightarrow> string \<Rightarrow> bool \<Rightarrow> json action" where
  "artist_json self ident root_dir quality_profile_id metadata_profile_id monitored
      artist_monitor artist_search_for_missing_albums =
     and_then
       (default_quality_profile self quality_profile_id)
       (\<lambda>quality_profile_id.
     and_then
       (default_metadata_profile self metadata_profile_id)
       (\<lambda>metadata_profile_id.
     and_then (lookup_artist self (''lidarr:'' @ ident))
       (\<lambda>found. lift (
          rbind (getitem0 found) (\<lambda>artist.
          rbind (setitem artist ''id'' (JInt 0)) (\<lambda>artist.
          rbind (setitem artist ''metadataProfileId'' metadata_profile_id) (\<lambda>artist.
          rbind (setitem artist ''qualityProfileId'' quality_profile_id) (\<lambda>artist.
          rbind (setitem artist ''rootFolderPath'' (JStr root_dir)) (\<lambda>artist.
          rbind (setitem artist ''addOptions''
                   (JObj [(''monitor'', JStr artist_monitor),
                          (''searchForMissingAlbums'',
                             JBool artist_search_for_missing_albums)])) (\<lambda>artist.
          setitem artist ''monitored'' (JBool monitored)))))))))))"

definition add_artist :: "client \<Rightarrow> string \<Rightarrow> string \<Rightarrow> int option \<Rightarrow> int option \<Rightarrow>
    bool \<Rightarrow> string \<Rightarrow> bool \<Rightarrow> json action" where
  "add_artist self ident root_dir quality_profile_id metadata_profile_id monitored
      artist_monitor artist_search_for_missing_albums =
     and_then
       (artist_json self ident root_dir quality_profile_id metadata_profile_id monitored
          artist_monitor artist_search_for_missing_albums)
       (\<lambda>artist_json. req_post self ''artist'' (ver_uri self) None (Some artist_json))"

definition album_json :: "client \<Rightarrow> string \<Rightarrow> string \<Rightarrow> int option \<Rightarrow> int option \<Rightarrow>
    bool \<Rightarrow> string \<Rightarrow> bool \<Rightarrow> json action" where
  "album_json self ident root_dir quality_profile_id metadata_profile_id monitored
      artist_monitor artist_search_for_missing_albums =
     and_then
       (default_quality_profile self quality_profile_id)
       (\<lambda>quality_profile_id.
     and_then
       (default_metadata_profile self metadata_profile_id)
       (\<lambda>metadata_profile_id.
     and_then (lookup_album self (''lidarr:'' @ ident))
       (\<lambda>found. lift (
          rbind (getitem0 found) (\<lambda>album.
          rbind (setitem album ''id'' (JInt 0)) (\<lambda>album.
          rbind (setitem album ''metadataProfileId'' metadata_profile_id) (\<lambda>album.
          rbind (setitem album ''qualityProfileId'' quality_profile_id) (\<lambda>album.
          rbind (setitem album ''rootFolderPath'' (JStr root_dir)) (\<lambda>album.
          rbind (setitem album ''addOptions''
                   (JObj [(''monitor'', JStr artist_monitor),
                          (''searchForMissingAlbums'',
                             JBool artist_search_for_missing_albums)])) (\<lambda>album.
          setitem album ''monitored'' (JBool monitored)))))))))))"

definition add_album :: "client \<Rightarrow> string \<Rightarrow> string \<Rightarrow> int option \<Rightarrow> int option \<Rightarrow>
    bool \<Rightarrow> string \<Rightarrow> bool \<Rightarrow> json action" where
  "add_album self ident root_dir quality_profile_id metadata_profile_id monitored
      artist_monitor artist_search_for_missing_albums =
     and_then
       (album_json self ident root_dir quality_profile_id metadata_profile_id monitored
          artist_monitor artist_search_for_missing_albums)
       (\<lambda>album_json. req_post self ''album'' (ver_uri self) None (Some album_json))"

text \<open>
  The sort key and the sort direction are members of closed vocabularies of strings
  (\<^verbatim>\<open>LidarrSortKey\<close>, \<^verbatim>\<open>PyarrSortDirection\<close>); the model carries the string.
\<close>

definition lidarr_get_wanted :: "client \<Rightarrow> int option \<Rightarrow> int option \<Rightarrow> int option \<Rightarrow>
    string option \<Rightarrow> string option \<Rightarrow> bool \<Rightarrow> json action" where
  "lidarr_get_wanted self ident page page_size sortKey sortDirection missing =
     (let params = [];
          params = (if truthy_int page
                    then AList.update ''page'' (opt_int page) params else params);
          params = (if truthy_int page_size
                    then AList.update ''pageSize'' (opt_int page_size) params else params)
      in and_then
           (lift (if truthy_str sortKey \<and> truthy_str sortDirection
                  then Inr (AList.update ''sortDirection'' (opt_str sortDirection)
                             (AList.update ''sortKey'' (opt_str sortKey) params))
                  else if truthy_str sortKey \<or> truthy_str sortDirection
                  then Inl (PyarrMissingArgument
                              ''sort_key and sort_dir  must be used together'')
                  else Inr params))
           (\<lambda>params.
              req_get self
                (''wanted/'' @ (if missing then ''missing'' else ''cutoff'') @
                   (case ident of None \<Rightarrow> [] | Some i \<Rightarrow> ''/'' @ str_int i))
                (ver_uri self) (Some params)))"

definition get_tracks :: "client \<Rightarrow> int option \<Rightarrow> int option \<Rightarrow> int option \<Rightarrow>
    ids option \<Rightarrow> json action" where
  "get_tracks self artistId albumId albumReleaseId trackIds =
     (let params = [];
          params = (if artistId \<noteq> None
                    then AList.update ''artistId'' (opt_int artistId) params else params);
          params = (if albumId \<noteq> None
                    then AList.update ''albumId'' (opt_int albumId) params else params);
          params = (if albumReleaseId \<noteq> None
                    then AList.update ''albumReleaseId'' (opt_int albumReleaseId) params
                    else params);
          params = (case trackIds of
                      Some (Many xs) \<Rightarrow> AList.update ''trackIds'' (ids_json xs) params
                    | Some (Single i) \<Rightarrow> params
                    | None \<Rightarrow> params)
      in if artistId = None \<and> albumId = None \<and> albumReleaseId = None \<and> trackIds = None
         then lift (Inl (PyarrMissingArgument
                ''One of artistId, albumId, albumReleaseId or trackIds must be provided''))
         else req_get self
                (''track'' @ (case trackIds of
                                Some (Single i) \<Rightarrow> ''/'' @ str_int i
                              | Some (Many xs) \<Rightarrow> []
                              | None \<Rightarrow> []))
                (ver_uri self) (Some params))"

definition delete_track_file :: "client \<Rightarrow> ids \<Rightarrow> json action" where
  "delete_track_file self ids =
     req_delete self
       (''trackfile/'' @ (case ids of Many xs \<Rightarrow> ''bulk'' | Single i \<Rightarrow> str_int i))
       (ver_uri self) None
       (case ids of Many xs \<Rightarrow> Some (JObj [(''trackFileIds'', ids_json xs)])
        | Single i \<Rightarrow> None)"

definition lidarr_get_queue :: "client \<Rightarrow> int option \<Rightarrow> int option \<Rightarrow> string option \<Rightarrow>
    string option \<Rightarrow> bool option \<Rightarrow> bool option \<Rightarrow> bool option \<Rightarrow> json action" where
  "lidarr_get_queue self page page_size sortKey sortDirection unknown_artists include_artist
      include_album =
     (let params = [];
          params = (if truthy_int page
                    then AList.update ''page'' (opt_int page) params else params);
          params = (if truthy_int page_size
                    then AList.update ''pageSize'' (opt_int page_size) params else params)
      in and_then
           (lift (if truthy_str sortKey \<and> truthy_str sortDirection
                  then Inr (AList.update ''sortDirection'' (opt_str sortDirection)
                             (AList.update ''sortKey'' (opt_str sortKey) params))
                  else if truthy_str sortKey \<or> truthy_str sortDirection
                  then Inl (PyarrMissingArgument
                              ''sort_key and sort_dir  must be used together'')
                  else Inr params))
           (\<lambda>params.
              let params = (if truthy_bool unknown_artists
                            then AList.update ''unknownArtists'' (opt_bool unknown_artists) params
                            else params);
                  params = (if truthy_bool include_album
                            then AList.update ''includeAlbum'' (opt_bool include_album) params
                            else params);
                  params = (if truthy_bool include_artist
                            then AList.update ''includeArtist'' (opt_bool include_artist) params
                            else params)
              in req_get self ''queue'' (ver_uri self) (Some params)))"


section \<open>The movie-service client (\<^verbatim>\<open>pyarr/radarr.py\<close>)\<close>

definition RadarrAPI :: "transport \<Rightarrow> client" where
  "RadarrAPI t = \<lparr>ver_uri = ''/v3'', session = t\<rparr>"

text \<open>The sort keys of \<^verbatim>\<open>pyarr/models/radarr.py\<close>.\<close>

definition RadarrSortKey :: "string list" where
  "RadarrSortKey =
     [''date'', ''downloadClient'', ''id'', ''indexer'', ''languages'', ''message'',
      ''modieId'', ''movies.sortTitle'', ''path'', ''progress'', ''protocol'', ''quality'',
      ''ratings'', ''title'', ''size'', ''sourcetitle'', ''status'', ''timeleft'']"

text \<open>An identifier of type \<^verbatim>\<open>Union[str, int]\<close>: a TMDB number or an IMDB string.\<close>

datatype movie_id = IntId int | StrId string

definition lookup_movie :: "client \<Rightarrow> string \<Rightarrow> json action" where
  "lookup_movie self term =
     (let params = [(''term'', JStr term)]
      in req_get self ''movie/lookup'' (ver_uri self) (Some params))"

definition movie_json :: "client \<Rightarrow> movie_id \<Rightarrow> string \<Rightarrow> int \<Rightarrow> bool \<Rightarrow> bool \<Rightarrow>
    bool option \<Rightarrow> json action" where
  "movie_json self ident root_dir quality_profile_id monitored search_for_movie tmdb =
     and_then
       (if tmdb \<noteq> None
        then warn ''Argument tmdb is no longer used and will be removed in a future release.''
               DeprecationWarning
        else lift (Inr ()))
       (\<lambda>_.
     and_then
       (case ident of
          IntId i \<Rightarrow> lookup_movie self (''tmdb:'' @ str_int i)
        | StrId s \<Rightarrow> lookup_movie self (''imdb:'' @ s))
       (\<lambda>movies.
          if truthy movies
          then lift (
            rbind (getitem0 movies) (\<lambda>movie.
            rbind (getitem movie ''title'') (\<lambda>title.
            rbind (getitem movie ''year'') (\<lambda>year.
            rbind (getitem movie ''tmdbId'') (\<lambda>tmdbId.
            rbind (getitem movie ''images'') (\<lambda>images.
            rbind (getitem movie ''titleSlug'') (\<lambda>titleSlug.
            Inr (JObj
              [(''title'', title),
               (''rootFolderPath'', JStr root_dir),
               (''qualityProfileId'', JInt quality_profile_id),
               (''year'', year),
               (''tmdbId'', tmdbId),
               (''images'', images),
               (''titleSlug'', titleSlug),
               (''monitored'', JBool monitored),
               (''addOptions'', JObj [(''searchForMovie'', JBool search_for_movie)])]))))))))
          else lift (Inl (PyarrRecordNotFound ''Movie Doesn't Exist''))))"

definition get_movie :: "client \<Rightarrow> int option \<Rightarrow> bool \<Rightarrow> json action" where
  "get_movie self ident tmdb =
     (let params = [];
          params = (if tmdb then AList.update ''tmdbid'' (opt_int ident) params else params)
      in req_get self
           (''movie'' @ (case ident of
                           None \<Rightarrow> []
                         | Some i \<Rightarrow> if tmdb then [] else ''/'' @ str_int i))
           (ver_uri self) (Some params))"

definition add_movie :: "client \<Rightarrow> movie_id \<Rightarrow> string \<Rightarrow> int \<Rightarrow> bool \<Rightarrow> bool \<Rightarrow>
    bool option \<Rightarrow> json action" where
  "add_movie self ident root_dir quality_profile_id monitored search_for_movie tmdb =
     and_then
       (if truthy_bool tmdb
        then warn ''Argument tmdb is no longer used and will be removed in a future release.''
               DeprecationWarning
        else lift (Inr ()))
       (\<lambda>_.
     and_then
       (movie_json self ident root_dir quality_profile_id monitored search_for_movie None)
       (\<lambda>movie_json. req_post self ''movie'' (ver_uri self) None (Some movie_json)))"

fun is_list :: "json \<Rightarrow> bool" where
  "is_list (JList xs) = True"
| "is_list JNull = False"
| "is_list (JBool b) = False"
| "is_list (JInt i) = False"
| "is_list (JStr s) = False"
| "is_list (JObj d) = False"

definition upd_movie :: "client \<Rightarrow> json \<Rightarrow> bool option \<Rightarrow> json action" where
  "upd_movie self data move_files =
     (let params = [];
          params = (if move_files \<noteq> None
                    then AList.update ''moveFiles'' (opt_bool move_files) params else params)
      in and_then (print (type_repr data))
           (\<lambda>_. req_put self (''movie'' @ (if is_list data then ''/editor'' else []))
                   (ver_uri self) (Some params) (Some data)))"

definition get_movie_by_movie_id :: "client \<Rightarrow> int \<Rightarrow> json action" where
  "get_movie_by_movie_id self ident =
     and_then
       (warn ''This method is deprecated and will be removed in a future release. Please use get_movie()''
          DeprecationWarning)
       (\<lambda>_. req_get self (''movie/'' @ str_int ident) (ver_uri self) None)"

definition del_movie :: "client \<Rightarrow> ids \<Rightarrow> bool option \<Rightarrow> bool option \<Rightarrow> json action" where
  "del_movie self ident delete_files add_exclusion =
     (let params = [];
          params = (if truthy_bool delete_files
                    then AList.update ''deleteFiles'' (JStr (str_opt_bool delete_files)) params
                    else params);
          params = (if truthy_bool add_exclusion
                    then AList.update ''addImportExclusion'' (JStr (str_opt_bool add_exclusion))
                           params
                    else params);
          params = (case ident of
                      Many xs \<Rightarrow> AList.update ''movieIds'' (ids_json xs) params
                    | Single i \<Rightarrow> params)
      in req_delete self
           (case ident of Many xs \<Rightarrow> ''movie/editor'' | Single i \<Rightarrow> ''movie/'' @ str_int i)
           (ver_uri self)
           (case ident of Many xs \<Rightarrow> None | Single i \<Rightarrow> Some params)
           (case ident of Many xs \<Rightarrow> Some (JObj params) | Single i \<Rightarrow> None))"

definition lookup_movie_by_tmdb_id :: "client \<Rightarrow> int \<Rightarrow> json action" where
  "lookup_movie_by_tmdb_id self ident =
     and_then
       (warn ''This method is deprecated and will be removed in a future release. use lookup_movie(term='tmdb:123456')''
          DeprecationWarning)
       (\<lambda>_. let params = [(''term'', JStr (''tmdb:'' @ str_int ident))]
            in req_get self ''movie/lookup'' (ver_uri self) (Some params))"

definition lookup_movie_by_imdb_id :: "client \<Rightarrow> string \<Rightarrow> json action" where
  "lookup_movie_by_imdb_id self ident =
     and_then
       (warn ''This method is deprecated and will be removed in a future release. use lookup_movie(term='imdb:123456')''
          DeprecationWarning)
       (\<lambda>_. let params = [(''term'', JStr (''imdb:'' @ ident))]
            in req_get self ''movie/lookup'' (ver_uri self) (Some params))"

definition upd_movies :: "client \<Rightarrow> json \<Rightarrow> json action" where
  "upd_movies self data =
     and_then
       (warn ''This method is deprecated and will be removed in a future release. Please use upd_movie() with a list to update''
          DeprecationWarning)
       (\<lambda>_. req_put self ''movie/editor'' (ver_uri self) None (Some data))"

definition del_movies :: "client \<Rightarrow> json \<Rightarrow> json action" where
  "del_movies self data =
     and_then
       (warn ''This method is deprecated and will be removed in a future release. Please use del_movie().''
          DeprecationWarning)
       (\<lambda>_. req_delete self ''movie/editor'' (ver_uri self) None (Some data))"

definition del_movie_file :: "client \<Rightarrow> ids \<Rightarrow> json action" where
  "del_movie_file self ident =
     req_delete self
       (case ident of Many xs \<Rightarrow> ''moviefile/bulk'' | Single i \<Rightarrow> ''moviefile/'' @ str_int i)
       (ver_uri self) None
       (case ident of Many xs \<Rightarrow> Some (JObj [(''movieFileIds'', ids_json xs)])
        | Single i \<Rightarrow> None)"

definition radarr_get_queue :: "client \<Rightarrow> int option \<Rightarrow> int option \<Rightarrow> string option \<Rightarrow>
    string option \<Rightarrow> bool option \<Rightarrow> json action" where
  "radarr_get_queue self page page_size sortDirection sortKey include_unknown_movie_items =
     (let params = [];
          params = (if truthy_int page
                    then AList.update ''page'' (opt_int page) params else params);
          params = (if truthy_int page_size
                    then AList.update ''pageSize'' (opt_int page_size) params else params)
      in and_then
           (lift (if truthy_str sortKey \<and> truthy_str sortDirection
                  then Inr (AList.update ''sortDirection'' (opt_str sortDirection)
                             (AList.update ''sortKey'' (opt_str sortKey) params))
                  else if truthy_str sortKey \<or> truthy_str sortDirection
                  then Inl (PyarrMissingArgument
                              ''sort_key and sort_dir  must be used together'')
                  else Inr params))
           (\<lambda>params.
              let params = (if include_unknown_movie_items \<noteq> None
                            then AList.update ''includeUnknownMovieItems''
                                   (opt_bool include_unknown_movie_items) params
                            else params)
              in req_get self ''queue'' (ver_uri self) (Some params)))"


section \<open>Vocabulary of the statements\<close>

text \<open>Equality of two dictionaries as Python's \<^verbatim>\<open>==\<close> sees it: the same keys with the
  same values, whatever the insertion order.\<close>

definition dict_eq :: "(string \<times> json) list \<Rightarrow> (string \<times> json) list \<Rightarrow> bool" where
  "dict_eq d d' = list_all (\<lambda>k. map_of d k = map_of d' k) (map fst d @ map fst d')"

text \<open>The value a request's JSON body holds under a key, and the value of a query
  parameter.\<close>

definition body_field :: "string \<Rightarrow> request \<Rightarrow> json option" where
  "body_field k r = (case req_data r of None \<Rightarrow> None | Some j \<Rightarrow> (case getitem j k of Inl e \<Rightarrow> None | Inr v \<Rightarrow> Some v))"

definition query_param :: "string \<Rightarrow> request \<Rightarrow> json option" where
  "query_param k r = map_of (req_params r) k"

text \<open>The requests a call started in world \<open>w\<close> handed to the transport.\<close>

definition requests_of :: "world \<Rightarrow> 'a result \<times> world \<Rightarrow> request list" where
  "requests_of w out = sent (issued w (snd out))"

text \<open>Two sample transports for concrete runs: one answers every request with the same
  value, the other answers by path from a table and reports any other path as not
  found.\<close>

definition always :: "json \<Rightarrow> transport" where
  "always j h r = Inr j"

definition by_path :: "(string \<times> json) list \<Rightarrow> transport" where
  "by_path table h r =
     (case map_of table (req_path r) of
        None \<Rightarrow> Inl (PyarrResourceNotFound (req_path r))
      | Some j \<Rightarrow> Inr j)"


text \<open>The requests that list the configured profiles and that look a record up.\<close>

definition quality_profiles_request :: "client \<Rightarrow> request" where
  "quality_profiles_request self =
     \<lparr>req_method = GET, req_ver = ver_uri self, req_path = ''qualityprofile'',
      req_params = [], req_data = None\<rparr>"

definition metadata_profiles_request :: "client \<Rightarrow> request" where
  "metadata_profiles_request self =
     \<lparr>req_method = GET, req_ver = ver_uri self, req_path = ''metadataprofile'',
      req_params = [], req_data = None\<rparr>"

definition lookup_request :: "client \<Rightarrow> string \<Rightarrow> string \<Rightarrow> request" where
  "lookup_request self path term =
     \<lparr>req_method = GET, req_ver = ver_uri self, req_path = path,
      req_params = [(''term'', JStr term)], req_data = None\<rparr>"

definition post_request :: "client \<Rightarrow> string \<Rightarrow> json \<Rightarrow> request" where
  "post_request self path body =
     \<lparr>req_method = POST, req_ver = ver_uri self, req_path = path,
      req_params = [], req_data = Some body\<rparr>"

text \<open>Sample services for concrete runs: a music service with one profile of each kind
  and one lookup result per entity, its variants with no profiles and with no lookup
  results, and a movie service with one lookup result.\<close>

definition sample_lidarr :: transport where
  "sample_lidarr = by_path
     [(''qualityprofile'', JList [JObj [(''id'', JInt 4), (''name'', JStr ''Lossless'')]]),
      (''metadataprofile'', JList [JObj [(''id'', JInt 9), (''name'', JStr ''Standard'')]]),
      (''artist/lookup'', JList [JObj [(''artistName'', JStr ''Nina''), (''id'', JInt 77)]]),
      (''album/lookup'', JList [JObj [(''title'', JStr ''Pastel''), (''id'', JInt 78)]]),
      (''artist'', JObj [(''id'', JInt 1)]),
      (''album'', JObj [(''id'', JInt 2)])]"

definition no_profiles :: transport where
  "no_profiles = by_path
     [(''qualityprofile'', JList []),
      (''metadataprofile'', JList [])]"

definition no_metadata_profiles :: transport where
  "no_metadata_profiles = by_path
     [(''qualityprofile'', JList [JObj [(''id'', JInt 4), (''name'', JStr ''Lossless'')]]),
      (''metadataprofile'', JList [])]"

definition sample_radarr :: transport where
  "sample_radarr = by_path
     [(''movie/lookup'',
         JList [JObj [(''title'', JStr ''Heat''), (''year'', JInt 1995), (''tmdbId'', JInt 949),
                      (''images'', JList []), (''titleSlug'', JStr ''949''), (''id'', JInt 31)]]),
      (''movie'', JObj [(''id'', JInt 1)])]"


section \<open>Basic facts\<close>

lemma sent_append [simp]: "sent (w @ w') = sent w @ sent w'"
  by (induction w rule: sent.induct) simp_all

lemma issued_append [simp]: "issued w (w @ es) = es"
  by (simp add: issued_def)

lemma issued_same [simp]: "issued w w = []"
  by (simp add: issued_def)

lemma dict_eq_iff: "dict_eq d d' \<longleftrightarrow> map_of d = map_of d'"
proof
  assume h: "dict_eq d d'"
  show "map_of d = map_of d'"
  proof (rule ext)
    fix k
    show "map_of d k = map_of d' k"
    proof (cases "k \<in> fst ` set d \<union> fst ` set d'")
      case True
      with h show ?thesis by (auto simp: dict_eq_def list_all_iff)
    next
      case False
      then have "map_of d k = None" "map_of d' k = None"
        by (simp_all add: map_of_eq_None_iff)
      then show ?thesis by simp
    qed
  qed
next
  assume "map_of d = map_of d'"
  then show "dict_eq d d'" by (simp add: dict_eq_def list_all_iff)
qed

text \<open>A helper call hands exactly one request to the transport, returns its answer and
  logs the request.\<close>

lemma send_run:
  "send self m path ver params data w =
     (session self (sent w)
        \<lparr>req_method = m, req_ver = ver, req_path = path,
         req_params = (case params of None \<Rightarrow> [] | Some ps \<Rightarrow> ps), req_data = data\<rparr>,
      w @ [Sent \<lparr>req_method = m, req_ver = ver, req_path = path,
         req_params = (case params of None \<Rightarrow> [] | Some ps \<Rightarrow> ps), req_data = data\<rparr>])"
  by (simp add: send_def Let_def)

lemmas helper_defs =
  req_get_def req_post_def req_put_def req_delete_def send_run and_then_def lift_def
  warn_def print_def

lemmas numeral_str = str_int_def str_nat.simps digit_char_def


section \<open>The root-folder example\<close>

text \<open>
  Claim C9. Calling the music-service \<^verbatim>\<open>add_root_folder(name="music",
  path="/data/music", qualityProfile=1, metadataProfile=1)\<close> issues one request,
  \<^verbatim>\<open>POST /v1/rootfolder\<close>, with no query and a body that is, as a dictionary, exactly
  \<^verbatim>\<open>{"name":"music","path":"/data/music","defaultQualityProfileId":1,
  "defaultMetadataProfileId":1,"defaultTags":[]}\<close> (the omitted \<^verbatim>\<open>defaultTags\<close> becoming
  the empty list), and returns the transport's decoded answer unchanged.
\<close>

theorem add_root_folder_example:
  "lidarr_add_root_folder (LidarrAPI T) ''music'' ''/data/music'' 1 1 None w =
     (T (sent w)
        \<lparr>req_method = POST, req_ver = ''/v1'', req_path = ''rootfolder'', req_params = [],
         req_data = Some (JObj
           [(''defaultTags'', JList []),
            (''defaultQualityProfileId'', JInt 1),
            (''defaultMetadataProfileId'', JInt 1),
            (''name'', JStr ''music''),
            (''path'', JStr ''/data/music'')])\<rparr>,
      w @ [Sent
        \<lparr>req_method = POST, req_ver = ''/v1'', req_path = ''rootfolder'', req_params = [],
         req_data = Some (JObj
           [(''defaultTags'', JList []),
            (''defaultQualityProfileId'', JInt 1),
            (''defaultMetadataProfileId'', JInt 1),
            (''name'', JStr ''music''),
            (''path'', JStr ''/data/music'')])\<rparr>])
   \<and> full_path
        \<lparr>req_method = POST, req_ver = ''/v1'', req_path = ''rootfolder'', req_params = [],
         req_data = Some (JObj
           [(''defaultTags'', JList []),
            (''defaultQualityProfileId'', JInt 1),
            (''defaultMetadataProfileId'', JInt 1),
            (''name'', JStr ''music''),
            (''path'', JStr ''/data/music'')])\<rparr> = ''/v1/rootfolder''
   \<and> dict_eq
         [(''defaultTags'', JList []),
          (''defaultQualityProfileId'', JInt 1),
          (''defaultMetadataProfileId'', JInt 1),
          (''name'', JStr ''music''),
          (''path'', JStr ''/data/music'')]
         [(''name'', JStr ''music''),
          (''path'', JStr ''/data/music''),
          (''defaultQualityProfileId'', JInt 1),
          (''defaultMetadataProfileId'', JInt 1),
          (''defaultTags'', JList [])]"
  by (simp add: lidarr_add_root_folder_def LidarrAPI_def helper_defs full_path_def dict_eq_def)


section \<open>Deleting by identifier\<close>

text \<open>
  Claim C6. \<^verbatim>\<open>delete_track_file\<close> and \<^verbatim>\<open>del_movie_file\<close> dispatch on the shape of
  the identifier: every list of ids goes to the bulk path (\<^verbatim>\<open>trackfile/bulk\<close>,
  \<^verbatim>\<open>moviefile/bulk\<close>) with the ids in the request body, and every single integer id
  goes to \<^verbatim>\<open>trackfile/{id}\<close>, \<^verbatim>\<open>moviefile/{id}\<close> with no body. Either way one DELETE
  is issued and the transport's answer is returned.
\<close>

theorem delete_by_identifier:
  "delete_track_file (LidarrAPI T) (Many xs) w =
     (T (sent w) \<lparr>req_method = DELETE, req_ver = ''/v1'', req_path = ''trackfile/bulk'',
         req_params = [], req_data = Some (JObj [(''trackFileIds'', ids_json xs)])\<rparr>,
      w @ [Sent \<lparr>req_method = DELETE, req_ver = ''/v1'', req_path = ''trackfile/bulk'',
         req_params = [], req_data = Some (JObj [(''trackFileIds'', ids_json xs)])\<rparr>])
   \<and> delete_track_file (LidarrAPI T) (Single i) w =
     (T (sent w) \<lparr>req_method = DELETE, req_ver = ''/v1'', req_path = ''trackfile/'' @ str_int i,
         req_params = [], req_data = None\<rparr>,
      w @ [Sent \<lparr>req_method = DELETE, req_ver = ''/v1'', req_path = ''trackfile/'' @ str_int i,
         req_params = [], req_data = None\<rparr>])
   \<and> del_movie_file (RadarrAPI T) (Many xs) w =
     (T (sent w) \<lparr>req_method = DELETE, req_ver = ''/v3'', req_path = ''moviefile/bulk'',
         req_params = [], req_data = Some (JObj [(''movieFileIds'', ids_json xs)])\<rparr>,
      w @ [Sent \<lparr>req_method = DELETE, req_ver = ''/v3'', req_path = ''moviefile/bulk'',
         req_params = [], req_data = Some (JObj [(''movieFileIds'', ids_json xs)])\<rparr>])
   \<and> del_movie_file (RadarrAPI T) (Single i) w =
     (T (sent w) \<lparr>req_method = DELETE, req_ver = ''/v3'', req_path = ''moviefile/'' @ str_int i,
         req_params = [], req_data = None\<rparr>,
      w @ [Sent \<lparr>req_method = DELETE, req_ver = ''/v3'', req_path = ''moviefile/'' @ str_int i,
         req_params = [], req_data = None\<rparr>])"
  by (simp add: delete_track_file_def del_movie_file_def LidarrAPI_def RadarrAPI_def helper_defs)

text \<open>\<^verbatim>\<open>del_movie\<close> follows the same dispatch with a different collection path: a list
  goes to \<^verbatim>\<open>movie/editor\<close> with the ids (and the flags) in the body, a single id to
  \<^verbatim>\<open>movie/{id}\<close> with the flags in the query and no body.\<close>

lemma del_movie_dispatch:
  "del_movie (RadarrAPI T) (Many xs) None None w =
     (T (sent w) \<lparr>req_method = DELETE, req_ver = ''/v3'', req_path = ''movie/editor'',
         req_params = [], req_data = Some (JObj [(''movieIds'', ids_json xs)])\<rparr>,
      w @ [Sent \<lparr>req_method = DELETE, req_ver = ''/v3'', req_path = ''movie/editor'',
         req_params = [], req_data = Some (JObj [(''movieIds'', ids_json xs)])\<rparr>])"
  "del_movie (RadarrAPI T) (Single i) None None w =
     (T (sent w) \<lparr>req_method = DELETE, req_ver = ''/v3'', req_path = ''movie/'' @ str_int i,
         req_params = [], req_data = None\<rparr>,
      w @ [Sent \<lparr>req_method = DELETE, req_ver = ''/v3'', req_path = ''movie/'' @ str_int i,
         req_params = [], req_data = None\<rparr>])"
  by (simp_all add: del_movie_def RadarrAPI_def helper_defs)


section \<open>Selecting tracks\<close>

text \<open>
  Claim C5, as the code has it. \<^verbatim>\<open>get_tracks\<close> with all four selectors absent raises
  PyarrMissingArgument before any request. With exactly one selector supplied it issues
  one GET and returns the transport's answer: \<^verbatim>\<open>artistId\<close>, \<^verbatim>\<open>albumId\<close>,
  \<^verbatim>\<open>albumReleaseId\<close> or a list \<^verbatim>\<open>trackIds\<close> is the only query parameter of
  \<^verbatim>\<open>GET track\<close>, whereas a single integer \<^verbatim>\<open>trackIds\<close> selects the path
  \<^verbatim>\<open>track/{id}\<close> and the query stays empty.
\<close>

theorem get_tracks_selectors:
  "get_tracks (LidarrAPI T) None None None None w =
     (Inl (PyarrMissingArgument
        ''One of artistId, albumId, albumReleaseId or trackIds must be provided''), w)
   \<and> get_tracks (LidarrAPI T) (Some a) None None None w =
     (T (sent w) \<lparr>req_method = GET, req_ver = ''/v1'', req_path = ''track'',
         req_params = [(''artistId'', JInt a)], req_data = None\<rparr>,
      w @ [Sent \<lparr>req_method = GET, req_ver = ''/v1'', req_path = ''track'',
         req_params = [(''artistId'', JInt a)], req_data = None\<rparr>])
   \<and> get_tracks (LidarrAPI T) None (Some a) None None w =
     (T (sent w) \<lparr>req_method = GET, req_ver = ''/v1'', req_path = ''track'',
         req_params = [(''albumId'', JInt a)], req_data = None\<rparr>,
      w @ [Sent \<lparr>req_method = GET, req_ver = ''/v1'', req_path = ''track'',
         req_params = [(''albumId'', JInt a)], req_data = None\<rparr>])
   \<and> get_tracks (LidarrAPI T) None None (Some a) None w =
     (T (sent w) \<lparr>req_method = GET, req_ver = ''/v1'', req_path = ''track'',
         req_params = [(''albumReleaseId'', JInt a)], req_data = None\<rparr>,
      w @ [Sent \<lparr>req_method = GET, req_ver = ''/v1'', req_path = ''track'',
         req_params = [(''albumReleaseId'', JInt a)], req_data = None\<rparr>])
   \<and> get_tracks (LidarrAPI T) None None None (Some (Many xs)) w =
     (T (sent w) \<lparr>req_method = GET, req_ver = ''/v1'', req_path = ''track'',
         req_params = [(''trackIds'', ids_json xs)], req_data = None\<rparr>,
      w @ [Sent \<lparr>req_method = GET, req_ver = ''/v1'', req_path = ''track'',
         req_params = [(''trackIds'', ids_json xs)], req_data = None\<rparr>])
   \<and> get_tracks (LidarrAPI T) None None None (Some (Single i)) w =
     (T (sent w) \<lparr>req_method = GET, req_ver = ''/v1'', req_path = ''track/'' @ str_int i,
         req_params = [], req_data = None\<rparr>,
      w @ [Sent \<lparr>req_method = GET, req_ver = ''/v1'', req_path = ''track/'' @ str_int i,
         req_params = [], req_data = None\<rparr>])"
  by (simp add: get_tracks_def LidarrAPI_def helper_defs)

text \<open>The claim as first stated fails for a single integer \<^verbatim>\<open>trackIds\<close>:
  \<^verbatim>\<open>get_tracks(trackIds=5)\<close> sends \<^verbatim>\<open>GET /v1/track/5\<close> with an empty query, so the
  selector is not among the query parameters.\<close>

theorem get_tracks_single_id_not_in_query:
  "get_tracks (LidarrAPI (always JNull)) None None None (Some (Single 5)) [] =
     (Inr JNull,
      [Sent \<lparr>req_method = GET, req_ver = ''/v1'', req_path = ''track/5'',
         req_params = [], req_data = None\<rparr>])"
  by (simp add: get_tracks_def LidarrAPI_def helper_defs always_def numeral_str)


section \<open>Running actions step by step\<close>

lemma fst_lift [simp]: "fst (lift r w) = r"
  by (simp add: lift_def)

lemma snd_lift [simp]: "snd (lift r w) = w"
  by (simp add: lift_def)

lemma fst_warn [simp]: "fst (warn msg c w) = Inr ()"
  by (simp add: warn_def)

lemma snd_warn [simp]: "snd (warn msg c w) = w @ [Warned c msg]"
  by (simp add: warn_def)

lemma fst_print [simp]: "fst (print s w) = Inr ()"
  by (simp add: print_def)

lemma snd_print [simp]: "snd (print s w) = w @ [Printed s]"
  by (simp add: print_def)

lemma fst_and_then:
  "fst (and_then m f w) =
     (case fst (m w) of Inl e \<Rightarrow> Inl e | Inr x \<Rightarrow> fst (f x (snd (m w))))"
  by (cases "m w") (simp add: and_then_def split: sum.splits)

lemma snd_and_then:
  "snd (and_then m f w) =
     (case fst (m w) of Inl e \<Rightarrow> snd (m w) | Inr x \<Rightarrow> snd (f x (snd (m w))))"
  by (cases "m w") (simp add: and_then_def split: sum.splits)

lemma fst_send:
  "fst (send self m path ver params data w) =
     session self (sent w)
        \<lparr>req_method = m, req_ver = ver, req_path = path,
         req_params = (case params of None \<Rightarrow> [] | Some ps \<Rightarrow> ps), req_data = data\<rparr>"
  by (simp add: send_run)

lemma snd_send:
  "snd (send self m path ver params data w) =
     w @ [Sent \<lparr>req_method = m, req_ver = ver, req_path = path,
         req_params = (case params of None \<Rightarrow> [] | Some ps \<Rightarrow> ps), req_data = data\<rparr>]"
  by (simp add: send_run)

lemma fst_except:
  "fst (except_IndexError m e w) = (if fst (m w) = Inl IndexError then Inl e else fst (m w))"
  by (simp add: except_IndexError_def split: prod.splits)

lemma snd_except: "snd (except_IndexError m e w) = snd (m w)"
  by (simp add: except_IndexError_def split: prod.splits)

lemmas run_simps =
  fst_and_then snd_and_then fst_send snd_send fst_except snd_except
  req_get_def req_post_def req_put_def req_delete_def

lemmas paginated_defs = lidarr_get_wanted_def lidarr_get_queue_def radarr_get_queue_def


section \<open>Sort key and sort direction go together\<close>

text \<open>Every sort key of the movie service is a non-empty string, hence truthy.\<close>

lemma RadarrSortKey_truthy: "list_all (\<lambda>k. truthy_str (Some k)) RadarrSortKey"
  by (simp add: RadarrSortKey_def)

text \<open>
  Claim C3. On \<^verbatim>\<open>get_wanted\<close> and on both \<^verbatim>\<open>get_queue\<close> endpoints, whatever the other
  arguments are: when only the sort key or only the sort direction is supplied (a
  member of its vocabulary, hence a non-empty string) and the other is \<^verbatim>\<open>None\<close>, the
  call raises PyarrMissingArgument and the world is unchanged, so no request has been
  made; when both are supplied, the one request issued carries both \<^verbatim>\<open>sortKey\<close> and
  \<^verbatim>\<open>sortDirection\<close> in its query and the transport's answer is returned.
\<close>

theorem sort_pair_validation:
  assumes "k \<noteq> []" and "d \<noteq> []"
  shows
  "lidarr_get_wanted self ident page page_size (Some k) None missing w =
     (Inl (PyarrMissingArgument ''sort_key and sort_dir  must be used together''), w)
   \<and> lidarr_get_wanted self ident page page_size None (Some d) missing w =
     (Inl (PyarrMissingArgument ''sort_key and sort_dir  must be used together''), w)
   \<and> (\<exists>r. lidarr_get_wanted self ident page page_size (Some k) (Some d) missing w =
          (session self (sent w) r, w @ [Sent r])
        \<and> query_param ''sortKey'' r = Some (JStr k)
        \<and> query_param ''sortDirection'' r = Some (JStr d))
   \<and> lidarr_get_queue self page page_size (Some k) None unknown_artists include_artist
        include_album w =
     (Inl (PyarrMissingArgument ''sort_key and sort_dir  must be used together''), w)
   \<and> lidarr_get_queue self page page_size None (Some d) unknown_artists include_artist
        include_album w =
     (Inl (PyarrMissingArgument ''sort_key and sort_dir  must be used together''), w)
   \<and> (\<exists>r. lidarr_get_queue self page page_size (Some k) (Some d) unknown_artists
             include_artist include_album w =
          (session self (sent w) r, w @ [Sent r])
        \<and> query_param ''sortKey'' r = Some (JStr k)
        \<and> query_param ''sortDirection'' r = Some (JStr d))
   \<and> radarr_get_queue self page page_size None (Some k) include_unknown w =
     (Inl (PyarrMissingArgument ''sort_key and sort_dir  must be used together''), w)
   \<and> radarr_get_queue self page page_size (Some d) None include_unknown w =
     (Inl (PyarrMissingArgument ''sort_key and sort_dir  must be used together''), w)
   \<and> (\<exists>r. radarr_get_queue self page page_size (Some d) (Some k) include_unknown w =
          (session self (sent w) r, w @ [Sent r])
        \<and> query_param ''sortKey'' r = Some (JStr k)
        \<and> query_param ''sortDirection'' r = Some (JStr d))"
  using assms
  by (simp add: paginated_defs helper_defs query_param_def update_conv' Let_def)

theorem sort_pair_validation_witness:
  "lidarr_get_wanted (LidarrAPI (always JNull)) None (Some 1) (Some 10) (Some ''title'') None
       True [] =
     (Inl (PyarrMissingArgument ''sort_key and sort_dir  must be used together''), [])
   \<and> lidarr_get_queue (LidarrAPI (always JNull)) None None None (Some ''ascending'') None None
       None [] =
     (Inl (PyarrMissingArgument ''sort_key and sort_dir  must be used together''), [])
   \<and> radarr_get_queue (RadarrAPI (always JNull)) (Some 1) (Some 10) (Some ''ascending'')
       (Some ''title'') None [] =
     (Inr JNull,
      [Sent \<lparr>req_method = GET, req_ver = ''/v3'', req_path = ''queue'',
         req_params = [(''page'', JInt 1), (''pageSize'', JInt 10), (''sortKey'', JStr ''title''),
                       (''sortDirection'', JStr ''ascending'')],
         req_data = None\<rparr>])"
  using sort_pair_validation [where k = "''title''" and d = "''ascending''"
      and self = "LidarrAPI (always JNull)" and ident = None and page = "Some 1"
      and page_size = "Some 10" and missing = True and w = "[]" and unknown_artists = None
      and include_artist = None and include_album = None and include_unknown = None]
    sort_pair_validation [where k = "''title''" and d = "''ascending''"
      and self = "RadarrAPI (always JNull)" and ident = None and page = "Some 1"
      and page_size = "Some 10" and missing = True and w = "[]" and unknown_artists = None
      and include_artist = None and include_album = None and include_unknown = None]
  by (simp add: paginated_defs helper_defs LidarrAPI_def RadarrAPI_def always_def Let_def)


section \<open>Page and page size\<close>

text \<open>A non-zero page or page size is passed through verbatim, and \<^verbatim>\<open>None\<close> is left out
  of the query; the guard is Python truthiness, so zero is left out as well.\<close>

lemma page_passthrough:
  assumes "truthy_str sortKey = truthy_str sortDirection"
  shows
  "\<exists>r. lidarr_get_wanted self ident page page_size sortKey sortDirection missing w =
          (session self (sent w) r, w @ [Sent r])
      \<and> query_param ''page'' r = (if truthy_int page then Some (opt_int page) else None)
      \<and> query_param ''pageSize'' r =
          (if truthy_int page_size then Some (opt_int page_size) else None)"
  and
  "\<exists>r. lidarr_get_queue self page page_size sortKey sortDirection unknown_artists
          include_artist include_album w =
          (session self (sent w) r, w @ [Sent r])
      \<and> query_param ''page'' r = (if truthy_int page then Some (opt_int page) else None)
      \<and> query_param ''pageSize'' r =
          (if truthy_int page_size then Some (opt_int page_size) else None)"
  and
  "\<exists>r. radarr_get_queue self page page_size sortDirection sortKey include_unknown w =
          (session self (sent w) r, w @ [Sent r])
      \<and> query_param ''page'' r = (if truthy_int page then Some (opt_int page) else None)
      \<and> query_param ''pageSize'' r =
          (if truthy_int page_size then Some (opt_int page_size) else None)"
  using assms
  by (simp_all add: paginated_defs helper_defs query_param_def update_conv' Let_def)

text \<open>
  Claim C4 says that every supplied integer \<^verbatim>\<open>page\<close> or \<^verbatim>\<open>page_size\<close> reaches the query
  verbatim. The code does so for every non-zero value (\<open>page_passthrough\<close>), but at
  \<^verbatim>\<open>page=0\<close>, \<^verbatim>\<open>page_size=0\<close> the three endpoints send a request with an empty query:
  the supplied zero is dropped as if the argument were absent.
\<close>

theorem page_zero_dropped:
  "lidarr_get_wanted (LidarrAPI T) None (Some 0) (Some 0) None None True w =
     (T (sent w) \<lparr>req_method = GET, req_ver = ''/v1'', req_path = ''wanted/missing'',
         req_params = [], req_data = None\<rparr>,
      w @ [Sent \<lparr>req_method = GET, req_ver = ''/v1'', req_path = ''wanted/missing'',
         req_params = [], req_data = None\<rparr>])
   \<and> lidarr_get_queue (LidarrAPI T) (Some 0) (Some 0) None None None None None w =
     (T (sent w) \<lparr>req_method = GET, req_ver = ''/v1'', req_path = ''queue'',
         req_params = [], req_data = None\<rparr>,
      w @ [Sent \<lparr>req_method = GET, req_ver = ''/v1'', req_path = ''queue'',
         req_params = [], req_data = None\<rparr>])
   \<and> radarr_get_queue (RadarrAPI T) (Some 0) (Some 0) None None None w =
     (T (sent w) \<lparr>req_method = GET, req_ver = ''/v3'', req_path = ''queue'',
         req_params = [], req_data = None\<rparr>,
      w @ [Sent \<lparr>req_method = GET, req_ver = ''/v3'', req_path = ''queue'',
         req_params = [], req_data = None\<rparr>])"
  by (simp add: paginated_defs helper_defs LidarrAPI_def RadarrAPI_def Let_def)


section \<open>Deprecated aliases\<close>

text \<open>
  Claim C8, as the code has it. Every deprecated alias first issues a
  DeprecationWarning, which is an event in the log and never an error, and then makes
  its request. \<^verbatim>\<open>get_movie_by_movie_id(id)\<close> continues exactly as \<^verbatim>\<open>get_movie(id_=id)\<close>,
  \<^verbatim>\<open>lookup_movie_by_tmdb_id(id)\<close> as \<^verbatim>\<open>lookup_movie(term="tmdb:{id}")\<close> and
  \<^verbatim>\<open>lookup_movie_by_imdb_id(id)\<close> as \<^verbatim>\<open>lookup_movie(term="imdb:{id}")\<close>: same request,
  same result. \<^verbatim>\<open>upd_movies(data)\<close> always sends \<^verbatim>\<open>PUT movie/editor\<close> with \<^verbatim>\<open>data\<close> as
  the body; that is the request and the result of \<^verbatim>\<open>upd_movie(data)\<close> when \<^verbatim>\<open>data\<close> is a
  list. \<^verbatim>\<open>del_movies(data)\<close> always sends \<^verbatim>\<open>DELETE movie/editor\<close> with \<^verbatim>\<open>data\<close> as the
  body; for \<^verbatim>\<open>data = {"movieIds": ids}\<close> it continues exactly as \<^verbatim>\<open>del_movie(ids)\<close>.
\<close>

theorem deprecated_aliases:
  "get_movie_by_movie_id self i w =
     get_movie self (Some i) False
       (w @ [Warned DeprecationWarning
          ''This method is deprecated and will be removed in a future release. Please use get_movie()''])
   \<and> lookup_movie_by_tmdb_id self i w =
     lookup_movie self (''tmdb:'' @ str_int i)
       (w @ [Warned DeprecationWarning
          ''This method is deprecated and will be removed in a future release. use lookup_movie(term='tmdb:123456')''])
   \<and> lookup_movie_by_imdb_id self s w =
     lookup_movie self (''imdb:'' @ s)
       (w @ [Warned DeprecationWarning
          ''This method is deprecated and will be removed in a future release. use lookup_movie(term='imdb:123456')''])
   \<and> upd_movies self data w =
     (session self (sent w)
        \<lparr>req_method = PUT, req_ver = ver_uri self, req_path = ''movie/editor'',
         req_params = [], req_data = Some data\<rparr>,
      w @ [Warned DeprecationWarning
             ''This method is deprecated and will be removed in a future release. Please use upd_movie() with a list to update'',
           Sent \<lparr>req_method = PUT, req_ver = ver_uri self, req_path = ''movie/editor'',
             req_params = [], req_data = Some data\<rparr>])
   \<and> fst (upd_movies self (JList xs) w) = fst (upd_movie self (JList xs) None w)
   \<and> requests_of w (upd_movies self (JList xs) w) = requests_of w (upd_movie self (JList xs) None w)
   \<and> del_movies self data w =
     (session self (sent w)
        \<lparr>req_method = DELETE, req_ver = ver_uri self, req_path = ''movie/editor'',
         req_params = [], req_data = Some data\<rparr>,
      w @ [Warned DeprecationWarning
             ''This method is deprecated and will be removed in a future release. Please use del_movie().'',
           Sent \<lparr>req_method = DELETE, req_ver = ver_uri self, req_path = ''movie/editor'',
             req_params = [], req_data = Some data\<rparr>])
   \<and> del_movies self (JObj [(''movieIds'', ids_json ms)]) w =
     del_movie self (Many ms) None None
       (w @ [Warned DeprecationWarning
          ''This method is deprecated and will be removed in a future release. Please use del_movie().''])"
  by (simp add: get_movie_by_movie_id_def get_movie_def lookup_movie_by_tmdb_id_def
      lookup_movie_by_imdb_id_def lookup_movie_def upd_movies_def upd_movie_def del_movies_def
      del_movie_def helper_defs Let_def requests_of_def)

text \<open>The claim as first stated fails for \<^verbatim>\<open>upd_movies\<close> on the dictionary its signature
  asks for: the alias sends it to \<^verbatim>\<open>movie/editor\<close>, the canonical \<^verbatim>\<open>upd_movie\<close> sends the
  same dictionary to \<^verbatim>\<open>movie\<close>.\<close>

theorem upd_movies_differs_from_upd_movie:
  "requests_of [] (upd_movies (RadarrAPI (always JNull)) (JObj [(''movieIds'', JList [JInt 1]), (''monitored'', JBool False)]) []) =
     [\<lparr>req_method = PUT, req_ver = ''/v3'', req_path = ''movie/editor'', req_params = [],
       req_data = Some (JObj [(''movieIds'', JList [JInt 1]), (''monitored'', JBool False)])\<rparr>]
   \<and> requests_of [] (upd_movie (RadarrAPI (always JNull)) (JObj [(''movieIds'', JList [JInt 1]), (''monitored'', JBool False)]) None []) =
     [\<lparr>req_method = PUT, req_ver = ''/v3'', req_path = ''movie'', req_params = [],
       req_data = Some (JObj [(''movieIds'', JList [JInt 1]), (''monitored'', JBool False)])\<rparr>]"
  by (simp add: upd_movies_def upd_movie_def helper_defs Let_def requests_of_def RadarrAPI_def always_def issued_def)

text \<open>No call of \<^verbatim>\<open>upd_movie\<close> sends a dictionary to \<^verbatim>\<open>movie/editor\<close>.\<close>

lemma upd_movie_no_match:
  "requests_of w (upd_movie self data' mf w) \<noteq>
     [\<lparr>req_method = PUT, req_ver = ver_uri self, req_path = ''movie/editor'', req_params = ps,
       req_data = Some (JObj d)\<rparr>]"
  by (cases data') (simp_all add: upd_movie_def helper_defs Let_def requests_of_def)


text \<open>\<^verbatim>\<open>del_movie\<close> on a list sends its flags in the body as the strings that
  \<^verbatim>\<open>str(True)\<close> gives, so a \<^verbatim>\<open>del_movies\<close> body with boolean flags has no \<^verbatim>\<open>del_movie\<close>
  counterpart either.\<close>

lemma del_movie_flags_are_strings:
  "del_movie self (Many xs) (Some True) (Some True) w =
     (session self (sent w)
        \<lparr>req_method = DELETE, req_ver = ver_uri self, req_path = ''movie/editor'',
         req_params = [],
         req_data = Some (JObj [(''deleteFiles'', JStr ''True''),
                                (''addImportExclusion'', JStr ''True''),
                                (''movieIds'', ids_json xs)])\<rparr>,
      w @ [Sent \<lparr>req_method = DELETE, req_ver = ver_uri self, req_path = ''movie/editor'',
         req_params = [],
         req_data = Some (JObj [(''deleteFiles'', JStr ''True''),
                                (''addImportExclusion'', JStr ''True''),
                                (''movieIds'', ids_json xs)])\<rparr>])"
  by (simp add: del_movie_def helper_defs str_bool_def)


section \<open>The lookup term of the movie service\<close>

lemma movie_json_world:
  "snd (movie_json self ident root_dir q mon srch tmdb w) =
     w @ (if tmdb \<noteq> None
          then [Warned DeprecationWarning
                  ''Argument tmdb is no longer used and will be removed in a future release.'']
          else []) @
     [Sent \<lparr>req_method = GET, req_ver = ver_uri self, req_path = ''movie/lookup'',
        req_params = [(''term'', JStr (case ident of IntId i \<Rightarrow> ''tmdb:'' @ str_int i
                                       | StrId s \<Rightarrow> ''imdb:'' @ s))],
        req_data = None\<rparr>]"
  by (cases ident)
     (simp_all add: movie_json_def lookup_movie_def run_simps Let_def split: sum.splits)

lemma movie_json_requests:
  "requests_of w (movie_json self ident root_dir q mon srch tmdb w) =
     [\<lparr>req_method = GET, req_ver = ver_uri self, req_path = ''movie/lookup'',
        req_params = [(''term'', JStr (case ident of IntId i \<Rightarrow> ''tmdb:'' @ str_int i
                                       | StrId s \<Rightarrow> ''imdb:'' @ s))],
        req_data = None\<rparr>]"
  by (simp add: requests_of_def movie_json_world)

lemma add_movie_requests:
  "requests_of w (add_movie self ident root_dir q mon srch tmdb w) =
     \<lparr>req_method = GET, req_ver = ver_uri self, req_path = ''movie/lookup'',
        req_params = [(''term'', JStr (case ident of IntId i \<Rightarrow> ''tmdb:'' @ str_int i
                                       | StrId s \<Rightarrow> ''imdb:'' @ s))],
        req_data = None\<rparr> #
     (case fst (movie_json self ident root_dir q mon srch None
                  (w @ (if truthy_bool tmdb
                        then [Warned DeprecationWarning
                          ''Argument tmdb is no longer used and will be removed in a future release.'']
                        else []))) of
        Inl e \<Rightarrow> []
      | Inr body \<Rightarrow> [\<lparr>req_method = POST, req_ver = ver_uri self, req_path = ''movie'',
                       req_params = [], req_data = Some body\<rparr>])"
  by (simp add: requests_of_def add_movie_def run_simps movie_json_world split: sum.splits)

text \<open>
  Claim C10. In \<^verbatim>\<open>add_movie\<close> and \<^verbatim>\<open>_movie_json\<close> the lookup term depends on the
  identifier alone: for an integer the first request is the lookup with term
  \<^verbatim>\<open>tmdb:{id_}\<close>, for a string it is the lookup with term \<^verbatim>\<open>imdb:{id_}\<close>, whatever the
  root directory, the profile, the flags, the \<^verbatim>\<open>tmdb\<close> argument, the transport and the
  world are. It is the only lookup: \<^verbatim>\<open>_movie_json\<close> makes no other request, and
  whatever \<^verbatim>\<open>add_movie\<close> sends after it is a POST.
\<close>

theorem movie_lookup_term:
  "take 1 (requests_of w (add_movie self (IntId i) root_dir q mon srch tmdb w)) =
     [\<lparr>req_method = GET, req_ver = ver_uri self, req_path = ''movie/lookup'',
       req_params = [(''term'', JStr (''tmdb:'' @ str_int i))], req_data = None\<rparr>]
   \<and> take 1 (requests_of w (add_movie self (StrId s) root_dir q mon srch tmdb w)) =
     [\<lparr>req_method = GET, req_ver = ver_uri self, req_path = ''movie/lookup'',
       req_params = [(''term'', JStr (''imdb:'' @ s))], req_data = None\<rparr>]
   \<and> drop 1 (requests_of w (add_movie self ident root_dir q mon srch tmdb w)) =
       posts (requests_of w (add_movie self ident root_dir q mon srch tmdb w))
   \<and> requests_of w (movie_json self (IntId i) root_dir q mon srch tmdb w) =
     [\<lparr>req_method = GET, req_ver = ver_uri self, req_path = ''movie/lookup'',
       req_params = [(''term'', JStr (''tmdb:'' @ str_int i))], req_data = None\<rparr>]
   \<and> requests_of w (movie_json self (StrId s) root_dir q mon srch tmdb w) =
     [\<lparr>req_method = GET, req_ver = ver_uri self, req_path = ''movie/lookup'',
       req_params = [(''term'', JStr (''imdb:'' @ s))], req_data = None\<rparr>]"
  by (simp add: add_movie_requests movie_json_requests split: sum.splits)


section \<open>Looking a record up and creating it\<close>

lemmas request_defs = quality_profiles_request_def metadata_profiles_request_def
  lookup_request_def post_request_def

lemma rbind_simps [simp]: "rbind (Inl e) f = Inl e" "rbind (Inr x) f = f x"
  by (simp_all add: rbind_def)

lemma rbind_eq_Inr: "rbind r f = Inr b \<longleftrightarrow> (\<exists>a. r = Inr a \<and> f a = Inr b)"
  by (cases r) simp_all

lemma and_then_lift:
  "and_then m (\<lambda>x. lift (g x)) w = (rbind (fst (m w)) g, snd (m w))"
  by (cases "m w") (simp add: and_then_def lift_def rbind_def split: sum.splits)

lemma first_quality_profile_id_run:
  "first_quality_profile_id self w =
     (rbind (session self (sent w) (quality_profiles_request self))
        (\<lambda>ps. rbind (getitem0 ps) (\<lambda>p. getitem p ''id'')),
      w @ [Sent (quality_profiles_request self)])"
  by (simp add: first_quality_profile_id_def and_then_lift get_quality_profile_def run_simps
      request_defs)

lemma first_metadata_profile_id_run:
  "first_metadata_profile_id self w =
     (rbind (session self (sent w) (metadata_profiles_request self))
        (\<lambda>ps. rbind (getitem0 ps) (\<lambda>p. getitem p ''id'')),
      w @ [Sent (metadata_profiles_request self)])"
  by (simp add: first_metadata_profile_id_def and_then_lift get_metadata_profile_def run_simps
      request_defs)

lemma default_quality_profile_given [simp]:
  "default_quality_profile self (Some q) w = (Inr (JInt q), w)"
  by (simp add: default_quality_profile_def lift_def)

lemma default_metadata_profile_given [simp]:
  "default_metadata_profile self (Some q) w = (Inr (JInt q), w)"
  by (simp add: default_metadata_profile_def lift_def)

lemma snd_default_quality_profile:
  "snd (default_quality_profile self None w) = w @ [Sent (quality_profiles_request self)]"
  by (simp add: default_quality_profile_def snd_except first_quality_profile_id_run)

lemma snd_default_metadata_profile:
  "snd (default_metadata_profile self None w) = w @ [Sent (metadata_profiles_request self)]"
  by (simp add: default_metadata_profile_def snd_except first_metadata_profile_id_run)

lemma default_quality_profile_empty:
  assumes "session self (sent w) (quality_profiles_request self) = Inr (JList [])"
  shows "fst (default_quality_profile self None w) =
           Inl (PyarrMissingProfile ''There is no Quality Profile setup'')"
  using assms by (simp add: default_quality_profile_def fst_except first_quality_profile_id_run)

lemma default_metadata_profile_empty:
  assumes "session self (sent w) (metadata_profiles_request self) = Inr (JList [])"
  shows "fst (default_metadata_profile self None w) =
           Inl (PyarrMissingProfile ''There is no Metadata Profile setup'')"
  using assms by (simp add: default_metadata_profile_def fst_except first_metadata_profile_id_run)

lemma default_quality_profile_first:
  assumes "session self (sent w) (quality_profiles_request self) = Inr (JList (JObj d # ps))"
    and "map_of d ''id'' = Some v"
  shows "fst (default_quality_profile self None w) = Inr v"
  using assms by (simp add: default_quality_profile_def fst_except first_quality_profile_id_run)

lemma default_metadata_profile_first:
  assumes "session self (sent w) (metadata_profiles_request self) = Inr (JList (JObj d # ps))"
    and "map_of d ''id'' = Some v"
  shows "fst (default_metadata_profile self None w) = Inr v"
  using assms by (simp add: default_metadata_profile_def fst_except first_metadata_profile_id_run)

lemma posts_append [simp]: "posts (xs @ ys) = posts xs @ posts ys"
  by (induction xs) simp_all

text \<open>Actions that only add GET requests to the world.\<close>

lemma gets_lift: "\<exists>es. snd (lift r w) = w @ es \<and> posts (sent es) = []"
  by simp

lemma gets_req_get: "\<exists>es. snd (req_get self path ver params w) = w @ es \<and> posts (sent es) = []"
  by (simp add: run_simps)

lemma gets_and_then:
  assumes "\<And>w. \<exists>es. snd (m w) = w @ es \<and> posts (sent es) = []"
    and "\<And>x w. \<exists>es. snd (f x w) = w @ es \<and> posts (sent es) = []"
  shows "\<exists>es. snd (and_then m f w) = w @ es \<and> posts (sent es) = []"
proof (cases "fst (m w)")
  case (Inl e)
  with assms(1) [of w] show ?thesis by (simp add: snd_and_then)
next
  case (Inr x)
  obtain es where es: "snd (m w) = w @ es" "posts (sent es) = []"
    using assms(1) [of w] by blast
  obtain es' where es': "snd (f x (snd (m w))) = snd (m w) @ es'" "posts (sent es') = []"
    using assms(2) [of x "snd (m w)"] by blast
  have "posts (sent (es @ es')) = []"
    using es(2) es'(2) by simp
  with Inr es es' show ?thesis by (simp add: snd_and_then)
qed


lemma gets_default_quality_profile:
  "\<exists>es. snd (default_quality_profile self qpid w) = w @ es \<and> posts (sent es) = []"
  by (cases qpid) (simp_all add: snd_default_quality_profile request_defs)

lemma gets_default_metadata_profile:
  "\<exists>es. snd (default_metadata_profile self mpid w) = w @ es \<and> posts (sent es) = []"
  by (cases mpid) (simp_all add: snd_default_metadata_profile request_defs)

lemma gets_artist_json:
  "\<exists>es. snd (artist_json self ident root_dir qpid mpid mon am srch w) = w @ es
        \<and> posts (sent es) = []"
  unfolding artist_json_def lookup_artist_def
  by (intro gets_and_then gets_default_quality_profile gets_default_metadata_profile
      gets_req_get gets_lift)

lemma fst_and_then_InrE:
  assumes "fst (and_then m f w) = Inr b"
  obtains x where "fst (m w) = Inr x" and "fst (f x (snd (m w))) = Inr b"
  using assms by (cases "fst (m w)") (simp_all add: fst_and_then)

lemma fill_record:
  assumes "rbind (setitem a ''id'' (JInt 0)) (\<lambda>a.
   rbind (setitem a ''metadataProfileId'' mp) (\<lambda>a.
   rbind (setitem a ''qualityProfileId'' qp) (\<lambda>a.
   rbind (setitem a ''rootFolderPath'' rd) (\<lambda>a.
   rbind (setitem a ''addOptions'' ao) (\<lambda>a.
   setitem a ''monitored'' mon))))) = Inr b"
  shows "\<exists>d. b = JObj d \<and> map_of d ''id'' = Some (JInt 0)
     \<and> map_of d ''metadataProfileId'' = Some mp \<and> map_of d ''qualityProfileId'' = Some qp"
  using assms by (cases a) (auto simp: update_conv')

lemma artist_json_result:
  assumes "fst (artist_json self ident root_dir qpid mpid mon am srch w) = Inr b"
  shows "\<exists>d qp mp. b = JObj d \<and> map_of d ''id'' = Some (JInt 0)
     \<and> map_of d ''qualityProfileId'' = Some qp \<and> map_of d ''metadataProfileId'' = Some mp
     \<and> fst (default_quality_profile self qpid w) = Inr qp
     \<and> fst (default_metadata_profile self mpid (snd (default_quality_profile self qpid w)))
         = Inr mp"
proof -
  from assms obtain qp where qp: "fst (default_quality_profile self qpid w) = Inr qp"
    and r1: "fst (and_then
       (default_metadata_profile self mpid)
       (\<lambda>metadata_profile_id.
     and_then (lookup_artist self (''lidarr:'' @ ident))
       (\<lambda>found. lift (
          rbind (getitem0 found) (\<lambda>artist.
          rbind (setitem artist ''id'' (JInt 0)) (\<lambda>artist.
          rbind (setitem artist ''metadataProfileId'' metadata_profile_id) (\<lambda>artist.
          rbind (setitem artist ''qualityProfileId'' qp) (\<lambda>artist.
          rbind (setitem artist ''rootFolderPath'' (JStr root_dir)) (\<lambda>artist.
          rbind (setitem artist ''addOptions''
                   (JObj [(''monitor'', JStr am),
                          (''searchForMissingAlbums'', JBool srch)])) (\<lambda>artist.
          setitem artist ''monitored'' (JBool mon)))))))))) (snd (default_quality_profile self qpid w))) = Inr b"
    unfolding artist_json_def by (rule fst_and_then_InrE)
  from r1 obtain mp where
    mp: "fst (default_metadata_profile self mpid (snd (default_quality_profile self qpid w))) = Inr mp"
    and r2: "fst (and_then (lookup_artist self (''lidarr:'' @ ident))
       (\<lambda>found. lift (
          rbind (getitem0 found) (\<lambda>artist.
          rbind (setitem artist ''id'' (JInt 0)) (\<lambda>artist.
          rbind (setitem artist ''metadataProfileId'' mp) (\<lambda>artist.
          rbind (setitem artist ''qualityProfileId'' qp) (\<lambda>artist.
          rbind (setitem artist ''rootFolderPath'' (JStr root_dir)) (\<lambda>artist.
          rbind (setitem artist ''addOptions''
                   (JObj [(''monitor'', JStr am),
                          (''searchForMissingAlbums'', JBool srch)])) (\<lambda>artist.
          setitem artist ''monitored'' (JBool mon))))))))) (snd (default_metadata_profile self mpid (snd (default_quality_profile self qpid w))))) = Inr b"
    by (rule fst_and_then_InrE)
  from r2 obtain found a where "getitem0 found = Inr a"
    and "rbind (setitem a ''id'' (JInt 0)) (\<lambda>artist.
          rbind (setitem artist ''metadataProfileId'' mp) (\<lambda>artist.
          rbind (setitem artist ''qualityProfileId'' qp) (\<lambda>artist.
          rbind (setitem artist ''rootFolderPath'' (JStr root_dir)) (\<lambda>artist.
          rbind (setitem artist ''addOptions''
                   (JObj [(''monitor'', JStr am),
                          (''searchForMissingAlbums'', JBool srch)])) (\<lambda>artist.
          setitem artist ''monitored'' (JBool mon)))))) = Inr b"
    by (auto elim!: fst_and_then_InrE simp: rbind_eq_Inr)
  from fill_record [OF this(2)] qp mp show ?thesis by blast
qed

lemma add_artist_posts:
  "posts (requests_of w (add_artist self ident root_dir qpid mpid mon am srch w)) =
     (case fst (artist_json self ident root_dir qpid mpid mon am srch w) of
        Inl e \<Rightarrow> []
      | Inr body \<Rightarrow> [post_request self ''artist'' body])"
proof -
  obtain es where es: "snd (artist_json self ident root_dir qpid mpid mon am srch w) = w @ es"
    "posts (sent es) = []"
    using gets_artist_json by blast
  then show ?thesis
    by (simp add: requests_of_def add_artist_def run_simps request_defs split: sum.splits)
qed

lemma gets_album_json:
  "\<exists>es. snd (album_json self ident root_dir qpid mpid mon am srch w) = w @ es
        \<and> posts (sent es) = []"
  unfolding album_json_def lookup_album_def
  by (intro gets_and_then gets_default_quality_profile gets_default_metadata_profile
      gets_req_get gets_lift)

lemma album_json_result:
  assumes "fst (album_json self ident root_dir qpid mpid mon am srch w) = Inr b"
  shows "\<exists>d qp mp. b = JObj d \<and> map_of d ''id'' = Some (JInt 0)
     \<and> map_of d ''qualityProfileId'' = Some qp \<and> map_of d ''metadataProfileId'' = Some mp
     \<and> fst (default_quality_profile self qpid w) = Inr qp
     \<and> fst (default_metadata_profile self mpid (snd (default_quality_profile self qpid w)))
         = Inr mp"
proof -
  from assms obtain qp where qp: "fst (default_quality_profile self qpid w) = Inr qp"
    and r1: "fst (and_then
       (default_metadata_profile self mpid)
       (\<lambda>metadata_profile_id.
     and_then (lookup_album self (''lidarr:'' @ ident))
       (\<lambda>found. lift (
          rbind (getitem0 found) (\<lambda>album.
          rbind (setitem album ''id'' (JInt 0)) (\<lambda>album.
          rbind (setitem album ''metadataProfileId'' metadata_profile_id) (\<lambda>album.
          rbind (setitem album ''qualityProfileId'' qp) (\<lambda>album.
          rbind (setitem album ''rootFolderPath'' (JStr root_dir)) (\<lambda>album.
          rbind (setitem album ''addOptions''
                   (JObj [(''monitor'', JStr am),
                          (''searchForMissingAlbums'', JBool srch)])) (\<lambda>album.
          setitem album ''monitored'' (JBool mon)))))))))) (snd (default_quality_profile self qpid w))) = Inr b"
    unfolding album_json_def by (rule fst_and_then_InrE)
  from r1 obtain mp where
    mp: "fst (default_metadata_profile self mpid (snd (default_quality_profile self qpid w))) = Inr mp"
    and r2: "fst (and_then (lookup_album self (''lidarr:'' @ ident))
       (\<lambda>found. lift (
          rbind (getitem0 found) (\<lambda>album.
          rbind (setitem album ''id'' (JInt 0)) (\<lambda>album.
          rbind (setitem album ''metadataProfileId'' mp) (\<lambda>album.
          rbind (setitem album ''qualityProfileId'' qp) (\<lambda>album.
          rbind (setitem album ''rootFolderPath'' (JStr root_dir)) (\<lambda>album.
          rbind (setitem album ''addOptions''
                   (JObj [(''monitor'', JStr am),
                          (''searchForMissingAlbums'', JBool srch)])) (\<lambda>album.
          setitem album ''monitored'' (JBool mon))))))))) (snd (default_metadata_profile self mpid (snd (default_quality_profile self qpid w))))) = Inr b"
    by (rule fst_and_then_InrE)
  from r2 obtain found a where "getitem0 found = Inr a"
    and "rbind (setitem a ''id'' (JInt 0)) (\<lambda>album.
          rbind (setitem album ''metadataProfileId'' mp) (\<lambda>album.
          rbind (setitem album ''qualityProfileId'' qp) (\<lambda>album.
          rbind (setitem album ''rootFolderPath'' (JStr root_dir)) (\<lambda>album.
          rbind (setitem album ''addOptions''
                   (JObj [(''monitor'', JStr am),
                          (''searchForMissingAlbums'', JBool srch)])) (\<lambda>album.
          setitem album ''monitored'' (JBool mon)))))) = Inr b"
    by (auto elim!: fst_and_then_InrE simp: rbind_eq_Inr)
  from fill_record [OF this(2)] qp mp show ?thesis by blast
qed

lemma add_album_posts:
  "posts (requests_of w (add_album self ident root_dir qpid mpid mon am srch w)) =
     (case fst (album_json self ident root_dir qpid mpid mon am srch w) of
        Inl e \<Rightarrow> []
      | Inr body \<Rightarrow> [post_request self ''album'' body])"
proof -
  obtain es where es: "snd (album_json self ident root_dir qpid mpid mon am srch w) = w @ es"
    "posts (sent es) = []"
    using gets_album_json by blast
  then show ?thesis
    by (simp add: requests_of_def add_album_def run_simps request_defs split: sum.splits)
qed

lemma movie_json_result:
  assumes "fst (movie_json self ident root_dir q mon srch tmdb w) = Inr b"
  shows "\<exists>title year tmdbId images titleSlug. b = JObj
              [(''title'', title),
               (''rootFolderPath'', JStr root_dir),
               (''qualityProfileId'', JInt q),
               (''year'', year),
               (''tmdbId'', tmdbId),
               (''images'', images),
               (''titleSlug'', titleSlug),
               (''monitored'', JBool mon),
               (''addOptions'', JObj [(''searchForMovie'', JBool srch)])]"
  using assms unfolding movie_json_def
  by (auto elim!: fst_and_then_InrE simp: rbind_eq_Inr split: if_splits)

lemma add_movie_posts:
  "posts (requests_of w (add_movie self ident root_dir q mon srch tmdb w)) =
     (case fst (movie_json self ident root_dir q mon srch None
                  (w @ (if truthy_bool tmdb
                        then [Warned DeprecationWarning
                          ''Argument tmdb is no longer used and will be removed in a future release.'']
                        else []))) of
        Inl e \<Rightarrow> []
      | Inr body \<Rightarrow> [post_request self ''movie'' body])"
  by (simp add: add_movie_requests request_defs split: sum.splits)

lemma artist_posts_id:
  assumes "r \<in> set (posts (requests_of w (add_artist self ident root_dir qpid mpid mon am srch w)))"
  shows "body_field ''id'' r = Some (JInt 0)"
proof (cases "fst (artist_json self ident root_dir qpid mpid mon am srch w)")
  case (Inl e)
  with assms show ?thesis by (simp add: add_artist_posts)
next
  case (Inr body)
  from artist_json_result [OF Inr] obtain d where "body = JObj d" "map_of d ''id'' = Some (JInt 0)"
    by blast
  with assms Inr show ?thesis by (simp add: add_artist_posts body_field_def post_request_def)
qed

lemma album_posts_id:
  assumes "r \<in> set (posts (requests_of w (add_album self ident root_dir qpid mpid mon am srch w)))"
  shows "body_field ''id'' r = Some (JInt 0)"
proof (cases "fst (album_json self ident root_dir qpid mpid mon am srch w)")
  case (Inl e)
  with assms show ?thesis by (simp add: add_album_posts)
next
  case (Inr body)
  from album_json_result [OF Inr] obtain d where "body = JObj d" "map_of d ''id'' = Some (JInt 0)"
    by blast
  with assms Inr show ?thesis by (simp add: add_album_posts body_field_def post_request_def)
qed

lemma movie_posts_id:
  assumes "r \<in> set (posts (requests_of w (add_movie self ident root_dir q mon srch tmdb w)))"
  shows "body_field ''id'' r = None"
proof (cases "fst (movie_json self ident root_dir q mon srch None
                  (w @ (if truthy_bool tmdb
                        then [Warned DeprecationWarning
                          ''Argument tmdb is no longer used and will be removed in a future release.'']
                        else [])))")
  case (Inl e)
  with assms show ?thesis by (simp add: add_movie_posts)
next
  case (Inr body)
  from movie_json_result [OF Inr] assms Inr show ?thesis
    by (auto simp: add_movie_posts body_field_def post_request_def)
qed

text \<open>
  Claim C1, as the code has it. Whatever the transport answers and whatever id the first
  lookup result carries: every record that \<^verbatim>\<open>add_artist\<close> or \<^verbatim>\<open>add_album\<close> POSTs has
  its \<^verbatim>\<open>id\<close> field set to zero, and every record that \<^verbatim>\<open>add_movie\<close> POSTs is built
  afresh from the lookup result's title, year, tmdbId, images and titleSlug and has no
  \<^verbatim>\<open>id\<close> field at all, so the id of the lookup result is never sent.
\<close>

theorem posted_record_id:
  "(\<forall>r \<in> set (posts (requests_of w
        (add_artist self ident root_dir quality_profile_id metadata_profile_id monitored
           artist_monitor search w))).
      body_field ''id'' r = Some (JInt 0))
   \<and> (\<forall>r \<in> set (posts (requests_of w
        (add_album self ident root_dir quality_profile_id metadata_profile_id monitored
           artist_monitor search w))).
      body_field ''id'' r = Some (JInt 0))
   \<and> (\<forall>r \<in> set (posts (requests_of w
        (add_movie self movie root_dir profile monitored search tmdb w))).
      body_field ''id'' r = None)"
  by (auto intro: artist_posts_id album_posts_id movie_posts_id)

text \<open>The definitions a concrete run unfolds.\<close>

lemmas eval_defs = add_artist_def add_album_def add_movie_def artist_json_def album_json_def
  movie_json_def default_quality_profile_def default_metadata_profile_def
  first_quality_profile_id_def first_metadata_profile_id_def get_quality_profile_def
  get_metadata_profile_def lookup_artist_def lookup_album_def lookup_movie_def
  except_IndexError_def helper_defs LidarrAPI_def RadarrAPI_def by_path_def always_def
  requests_of_def issued_def body_field_def Let_def

theorem posted_record_id_witness:
  "map (body_field ''id'')
     (posts (requests_of []
        (add_artist (LidarrAPI sample_lidarr) ''mbid'' ''/music'' None None True ''all'' False
           []))) = [Some (JInt 0)]
   \<and> map (body_field ''id'')
     (posts (requests_of []
        (add_album (LidarrAPI sample_lidarr) ''mbid'' ''/music'' None None True ''all'' False
           []))) = [Some (JInt 0)]
   \<and> map (body_field ''id'')
     (posts (requests_of []
        (add_movie (RadarrAPI sample_radarr) (IntId 949) ''/movies'' 1 True True None
           []))) = [None]"
  using posted_record_id [of "[]" "LidarrAPI sample_lidarr" "''mbid''" "''/music''" None None
      True "''all''" False "IntId 949" 1 None]
  by (simp add: eval_defs sample_lidarr_def sample_radarr_def)

text \<open>The claim as first stated fails for \<^verbatim>\<open>add_movie\<close>: against a movie service whose
  lookup result has id 31, the record POSTed to \<^verbatim>\<open>movie\<close> has nine fields and none of
  them is \<^verbatim>\<open>id\<close>.\<close>

theorem add_movie_posts_no_id_field:
  "posts (requests_of []
     (add_movie (RadarrAPI sample_radarr) (IntId 949) ''/movies'' 1 True True None [])) =
     [\<lparr>req_method = POST, req_ver = ''/v3'', req_path = ''movie'', req_params = [],
       req_data = Some (JObj
         [(''title'', JStr ''Heat''),
          (''rootFolderPath'', JStr ''/movies''),
          (''qualityProfileId'', JInt 1),
          (''year'', JInt 1995),
          (''tmdbId'', JInt 949),
          (''images'', JList []),
          (''titleSlug'', JStr ''949''),
          (''monitored'', JBool True),
          (''addOptions'', JObj [(''searchForMovie'', JBool True)])])\<rparr>]
   \<and> body_field ''id''
        \<lparr>req_method = POST, req_ver = ''/v3'', req_path = ''movie'', req_params = [],
         req_data = Some (JObj
           [(''title'', JStr ''Heat''),
            (''rootFolderPath'', JStr ''/movies''),
            (''qualityProfileId'', JInt 1),
            (''year'', JInt 1995),
            (''tmdbId'', JInt 949),
            (''images'', JList []),
            (''titleSlug'', JStr ''949''),
            (''monitored'', JBool True),
            (''addOptions'', JObj [(''searchForMovie'', JBool True)])])\<rparr> = None"
  by (simp add: eval_defs sample_radarr_def)

section \<open>An empty lookup result\<close>

text \<open>\<^verbatim>\<open>add_movie\<close> tests the lookup result before indexing it: on an empty list it raises
  PyarrRecordNotFound, and the lookup is the only request made.\<close>

lemma add_movie_empty_lookup:
  assumes "session self (sent w)
             (lookup_request self ''movie/lookup''
                (case ident of IntId i \<Rightarrow> ''tmdb:'' @ str_int i | StrId s \<Rightarrow> ''imdb:'' @ s)) =
           Inr (JList [])"
  shows "add_movie self ident root_dir q mon srch None w =
     (Inl (PyarrRecordNotFound ''Movie Doesn't Exist''),
      w @ [Sent (lookup_request self ''movie/lookup''
                   (case ident of IntId i \<Rightarrow> ''tmdb:'' @ str_int i | StrId s \<Rightarrow> ''imdb:'' @ s))])"
  using assms
  by (cases ident)
     (simp_all add: prod_eq_iff add_movie_def movie_json_def lookup_movie_def run_simps
        request_defs Let_def)

text \<open>\<^verbatim>\<open>add_artist\<close> and \<^verbatim>\<open>add_album\<close> index the lookup result unguarded: on an empty
  list the \<^verbatim>\<open>[0]\<close> raises IndexError, which nothing catches. The lookup is the only
  request made, so no POST happens.\<close>

lemma add_artist_empty_lookup:
  assumes "session self (sent w) (lookup_request self ''artist/lookup'' (''lidarr:'' @ ident)) =
           Inr (JList [])"
  shows "add_artist self ident root_dir (Some q) (Some m) mon am srch w =
     (Inl IndexError,
      w @ [Sent (lookup_request self ''artist/lookup'' (''lidarr:'' @ ident))])"
  using assms
  by (simp add: prod_eq_iff add_artist_def artist_json_def lookup_artist_def run_simps
      request_defs)

lemma add_album_empty_lookup:
  assumes "session self (sent w) (lookup_request self ''album/lookup'' (''lidarr:'' @ ident)) =
           Inr (JList [])"
  shows "add_album self ident root_dir (Some q) (Some m) mon am srch w =
     (Inl IndexError,
      w @ [Sent (lookup_request self ''album/lookup'' (''lidarr:'' @ ident))])"
  using assms
  by (simp add: prod_eq_iff add_album_def album_json_def lookup_album_def run_simps
      request_defs)

text \<open>
  Claim C2 says that an add-operation whose lookup returns an empty list raises
  PyarrRecordNotFound and performs no POST. \<^verbatim>\<open>add_movie\<close> does
  (\<open>add_movie_empty_lookup\<close>). Against a music service that answers every lookup with
  the empty list, \<^verbatim>\<open>add_artist\<close> and \<^verbatim>\<open>add_album\<close> make the lookup and no POST, but the
  error they raise is IndexError.
\<close>

theorem empty_lookup_raises_IndexError:
  "add_artist (LidarrAPI (always (JList []))) ''mbid'' ''/music'' (Some 1) (Some 1) True ''all''
       False [] =
     (Inl IndexError,
      [Sent \<lparr>req_method = GET, req_ver = ''/v1'', req_path = ''artist/lookup'',
         req_params = [(''term'', JStr ''lidarr:mbid'')], req_data = None\<rparr>])
   \<and> add_album (LidarrAPI (always (JList []))) ''mbid'' ''/music'' (Some 1) (Some 1) True ''all''
       False [] =
     (Inl IndexError,
      [Sent \<lparr>req_method = GET, req_ver = ''/v1'', req_path = ''album/lookup'',
         req_params = [(''term'', JStr ''lidarr:mbid'')], req_data = None\<rparr>])
   \<and> add_movie (RadarrAPI (always (JList []))) (StrId ''tt123d'') ''/'' 1 False False None [] =
     (Inl (PyarrRecordNotFound ''Movie Doesn't Exist''),
      [Sent \<lparr>req_method = GET, req_ver = ''/v3'', req_path = ''movie/lookup'',
         req_params = [(''term'', JStr ''imdb:tt123d'')], req_data = None\<rparr>])"
  by (simp add: eval_defs)


section \<open>Default profiles\<close>

lemma add_artist_no_quality_profile:
  assumes "session self (sent w) (quality_profiles_request self) = Inr (JList [])"
  shows "add_artist self ident root_dir None mpid mon am srch w =
     (Inl (PyarrMissingProfile ''There is no Quality Profile setup''),
      w @ [Sent (quality_profiles_request self)])"
  using default_quality_profile_empty [OF assms]
  by (simp add: prod_eq_iff add_artist_def artist_json_def run_simps snd_default_quality_profile)

lemma add_artist_no_metadata_profile:
  assumes "session self (sent w) (metadata_profiles_request self) = Inr (JList [])"
  shows "add_artist self ident root_dir (Some q) None mon am srch w =
     (Inl (PyarrMissingProfile ''There is no Metadata Profile setup''),
      w @ [Sent (metadata_profiles_request self)])"
  using default_metadata_profile_empty [OF assms]
  by (simp add: prod_eq_iff add_artist_def artist_json_def run_simps snd_default_metadata_profile)

lemma add_artist_no_metadata_profile_after_default:
  assumes "session self (sent w) (quality_profiles_request self) = Inr (JList (JObj d # ps))"
    and "map_of d ''id'' = Some v"
    and "session self (sent w @ [quality_profiles_request self])
           (metadata_profiles_request self) = Inr (JList [])"
  shows "add_artist self ident root_dir None None mon am srch w =
     (Inl (PyarrMissingProfile ''There is no Metadata Profile setup''),
      w @ [Sent (quality_profiles_request self), Sent (metadata_profiles_request self)])"
proof -
  have "fst (default_metadata_profile self None (w @ [Sent (quality_profiles_request self)])) =
          Inl (PyarrMissingProfile ''There is no Metadata Profile setup'')"
    using assms(3) by (intro default_metadata_profile_empty) simp
  with default_quality_profile_first [OF assms(1,2)] show ?thesis
    by (simp add: prod_eq_iff add_artist_def artist_json_def run_simps snd_default_quality_profile
        snd_default_metadata_profile)
qed

lemma add_artist_default_quality:
  assumes "session self (sent w) (quality_profiles_request self) = Inr (JList (JObj d # ps))"
    and "map_of d ''id'' = Some v"
    and "r \<in> set (posts (requests_of w (add_artist self ident root_dir None mpid mon am srch w)))"
  shows "body_field ''qualityProfileId'' r = Some v"
proof (cases "fst (artist_json self ident root_dir None mpid mon am srch w)")
  case (Inl e)
  with assms(3) show ?thesis by (simp add: add_artist_posts)
next
  case (Inr body)
  from artist_json_result [OF Inr] obtain d' qp where "body = JObj d'"
    "map_of d' ''qualityProfileId'' = Some qp"
    "fst (default_quality_profile self None w) = Inr qp"
    by blast
  with assms(3) Inr default_quality_profile_first [OF assms(1,2)] show ?thesis
    by (simp add: add_artist_posts body_field_def post_request_def)
qed

lemma add_artist_default_metadata:
  assumes "session self (sent w) (metadata_profiles_request self) = Inr (JList (JObj d # ps))"
    and "map_of d ''id'' = Some v"
    and "r \<in> set (posts (requests_of w
           (add_artist self ident root_dir (Some q) None mon am srch w)))"
  shows "body_field ''metadataProfileId'' r = Some v"
proof (cases "fst (artist_json self ident root_dir (Some q) None mon am srch w)")
  case (Inl e)
  with assms(3) show ?thesis by (simp add: add_artist_posts)
next
  case (Inr body)
  from artist_json_result [OF Inr] obtain d' mp where "body = JObj d'"
    "map_of d' ''metadataProfileId'' = Some mp"
    "fst (default_metadata_profile self None w) = Inr mp"
    by auto
  with assms(3) Inr default_metadata_profile_first [OF assms(1,2)] show ?thesis
    by (simp add: add_artist_posts body_field_def post_request_def)
qed

lemma add_artist_default_metadata_after_default:
  assumes "session self (sent w @ [quality_profiles_request self])
             (metadata_profiles_request self) = Inr (JList (JObj d # ps))"
    and "map_of d ''id'' = Some v"
    and "r \<in> set (posts (requests_of w (add_artist self ident root_dir None None mon am srch w)))"
  shows "body_field ''metadataProfileId'' r = Some v"
proof (cases "fst (artist_json self ident root_dir None None mon am srch w)")
  case (Inl e)
  with assms(3) show ?thesis by (simp add: add_artist_posts)
next
  case (Inr body)
  from artist_json_result [OF Inr] obtain d' mp where "body = JObj d'"
    "map_of d' ''metadataProfileId'' = Some mp"
    "fst (default_metadata_profile self None (w @ [Sent (quality_profiles_request self)])) =
       Inr mp"
    by (auto simp: snd_default_quality_profile)
  moreover have "fst (default_metadata_profile self None
      (w @ [Sent (quality_profiles_request self)])) = Inr v"
    using assms(1,2) by (intro default_metadata_profile_first) simp_all
  ultimately show ?thesis
    using assms(3) Inr by (simp add: add_artist_posts body_field_def post_request_def)
qed

lemma add_album_no_quality_profile:
  assumes "session self (sent w) (quality_profiles_request self) = Inr (JList [])"
  shows "add_album self ident root_dir None mpid mon am srch w =
     (Inl (PyarrMissingProfile ''There is no Quality Profile setup''),
      w @ [Sent (quality_profiles_request self)])"
  using default_quality_profile_empty [OF assms]
  by (simp add: prod_eq_iff add_album_def album_json_def run_simps snd_default_quality_profile)

lemma add_album_no_metadata_profile:
  assumes "session self (sent w) (metadata_profiles_request self) = Inr (JList [])"
  shows "add_album self ident root_dir (Some q) None mon am srch w =
     (Inl (PyarrMissingProfile ''There is no Metadata Profile setup''),
      w @ [Sent (metadata_profiles_request self)])"
  using default_metadata_profile_empty [OF assms]
  by (simp add: prod_eq_iff add_album_def album_json_def run_simps snd_default_metadata_profile)

lemma add_album_no_metadata_profile_after_default:
  assumes "session self (sent w) (quality_profiles_request self) = Inr (JList (JObj d # ps))"
    and "map_of d ''id'' = Some v"
    and "session self (sent w @ [quality_profiles_request self])
           (metadata_profiles_request self) = Inr (JList [])"
  shows "add_album self ident root_dir None None mon am srch w =
     (Inl (PyarrMissingProfile ''There is no Metadata Profile setup''),
      w @ [Sent (quality_profiles_request self), Sent (metadata_profiles_request self)])"
proof -
  have "fst (default_metadata_profile self None (w @ [Sent (quality_profiles_request self)])) =
          Inl (PyarrMissingProfile ''There is no Metadata Profile setup'')"
    using assms(3) by (intro default_metadata_profile_empty) simp
  with default_quality_profile_first [OF assms(1,2)] show ?thesis
    by (simp add: prod_eq_iff add_album_def album_json_def run_simps snd_default_quality_profile
        snd_default_metadata_profile)
qed

lemma add_album_default_quality:
  assumes "session self (sent w) (quality_profiles_request self) = Inr (JList (JObj d # ps))"
    and "map_of d ''id'' = Some v"
    and "r \<in> set (posts (requests_of w (add_album self ident root_dir None mpid mon am srch w)))"
  shows "body_field ''qualityProfileId'' r = Some v"
proof (cases "fst (album_json self ident root_dir None mpid mon am srch w)")
  case (Inl e)
  with assms(3) show ?thesis by (simp add: add_album_posts)
next
  case (Inr body)
  from album_json_result [OF Inr] obtain d' qp where "body = JObj d'"
    "map_of d' ''qualityProfileId'' = Some qp"
    "fst (default_quality_profile self None w) = Inr qp"
    by blast
  with assms(3) Inr default_quality_profile_first [OF assms(1,2)] show ?thesis
    by (simp add: add_album_posts body_field_def post_request_def)
qed

lemma add_album_default_metadata:
  assumes "session self (sent w) (metadata_profiles_request self) = Inr (JList (JObj d # ps))"
    and "map_of d ''id'' = Some v"
    and "r \<in> set (posts (requests_of w
           (add_album self ident root_dir (Some q) None mon am srch w)))"
  shows "body_field ''metadataProfileId'' r = Some v"
proof (cases "fst (album_json self ident root_dir (Some q) None mon am srch w)")
  case (Inl e)
  with assms(3) show ?thesis by (simp add: add_album_posts)
next
  case (Inr body)
  from album_json_result [OF Inr] obtain d' mp where "body = JObj d'"
    "map_of d' ''metadataProfileId'' = Some mp"
    "fst (default_metadata_profile self None w) = Inr mp"
    by auto
  with assms(3) Inr default_metadata_profile_first [OF assms(1,2)] show ?thesis
    by (simp add: add_album_posts body_field_def post_request_def)
qed

lemma add_album_default_metadata_after_default:
  assumes "session self (sent w @ [quality_profiles_request self])
             (metadata_profiles_request self) = Inr (JList (JObj d # ps))"
    and "map_of d ''id'' = Some v"
    and "r \<in> set (posts (requests_of w (add_album self ident root_dir None None mon am srch w)))"
  shows "body_field ''metadataProfileId'' r = Some v"
proof (cases "fst (album_json self ident root_dir None None mon am srch w)")
  case (Inl e)
  with assms(3) show ?thesis by (simp add: add_album_posts)
next
  case (Inr body)
  from album_json_result [OF Inr] obtain d' mp where "body = JObj d'"
    "map_of d' ''metadataProfileId'' = Some mp"
    "fst (default_metadata_profile self None (w @ [Sent (quality_profiles_request self)])) =
       Inr mp"
    by (auto simp: snd_default_quality_profile)
  moreover have "fst (default_metadata_profile self None
      (w @ [Sent (quality_profiles_request self)])) = Inr v"
    using assms(1,2) by (intro default_metadata_profile_first) simp_all
  ultimately show ?thesis
    using assms(3) Inr by (simp add: add_album_posts body_field_def post_request_def)
qed

text \<open>
  Claim C7. In \<^verbatim>\<open>add_artist\<close> and \<^verbatim>\<open>add_album\<close>, when the caller passes \<^verbatim>\<open>None\<close> for the
  quality (metadata) profile id, the list of configured quality (metadata) profiles is
  fetched. If that list is empty the operation raises PyarrMissingProfile and the only
  requests made are the profile listings, so no lookup and no POST happens. If its
  first element is a record with an \<^verbatim>\<open>id\<close>, every record the operation POSTs carries that
  id as \<^verbatim>\<open>qualityProfileId\<close> (\<^verbatim>\<open>metadataProfileId\<close>). The metadata listing is fetched
  after the quality listing when both ids are omitted.
\<close>

theorem default_profiles:
  "(session self (sent w) (quality_profiles_request self) = Inr (JList []) \<longrightarrow>
      add_artist self ident root_dir None metadata_profile_id monitored artist_monitor search w =
        (Inl (PyarrMissingProfile ''There is no Quality Profile setup''),
         w @ [Sent (quality_profiles_request self)]))
   \<and> (session self (sent w) (metadata_profiles_request self) = Inr (JList []) \<longrightarrow>
      add_artist self ident root_dir (Some q) None monitored artist_monitor search w =
        (Inl (PyarrMissingProfile ''There is no Metadata Profile setup''),
         w @ [Sent (metadata_profiles_request self)]))
   \<and> (session self (sent w) (quality_profiles_request self) = Inr (JList (JObj d # ps))
        \<and> map_of d ''id'' = Some v
        \<and> session self (sent w @ [quality_profiles_request self])
            (metadata_profiles_request self) = Inr (JList []) \<longrightarrow>
      add_artist self ident root_dir None None monitored artist_monitor search w =
        (Inl (PyarrMissingProfile ''There is no Metadata Profile setup''),
         w @ [Sent (quality_profiles_request self), Sent (metadata_profiles_request self)]))
   \<and> (session self (sent w) (quality_profiles_request self) = Inr (JList (JObj d # ps))
        \<and> map_of d ''id'' = Some v \<longrightarrow>
      (\<forall>r \<in> set (posts (requests_of w
          (add_artist self ident root_dir None metadata_profile_id monitored artist_monitor
             search w))).
        body_field ''qualityProfileId'' r = Some v))
   \<and> (session self (sent w) (metadata_profiles_request self) = Inr (JList (JObj d # ps))
        \<and> map_of d ''id'' = Some v \<longrightarrow>
      (\<forall>r \<in> set (posts (requests_of w
          (add_artist self ident root_dir (Some q) None monitored artist_monitor search w))).
        body_field ''metadataProfileId'' r = Some v))
   \<and> (session self (sent w @ [quality_profiles_request self])
          (metadata_profiles_request self) = Inr (JList (JObj d # ps))
        \<and> map_of d ''id'' = Some v \<longrightarrow>
      (\<forall>r \<in> set (posts (requests_of w
          (add_artist self ident root_dir None None monitored artist_monitor search w))).
        body_field ''metadataProfileId'' r = Some v))
   \<and> (session self (sent w) (quality_profiles_request self) = Inr (JList []) \<longrightarrow>
      add_album self ident root_dir None metadata_profile_id monitored artist_monitor search w =
        (Inl (PyarrMissingProfile ''There is no Quality Profile setup''),
         w @ [Sent (quality_profiles_request self)]))
   \<and> (session self (sent w) (metadata_profiles_request self) = Inr (JList []) \<longrightarrow>
      add_album self ident root_dir (Some q) None monitored artist_monitor search w =
        (Inl (PyarrMissingProfile ''There is no Metadata Profile setup''),
         w @ [Sent (metadata_profiles_request self)]))
   \<and> (session self (sent w) (quality_profiles_request self) = Inr (JList (JObj d # ps))
        \<and> map_of d ''id'' = Some v
        \<and> session self (sent w @ [quality_profiles_request self])
            (metadata_profiles_request self) = Inr (JList []) \<longrightarrow>
      add_album self ident root_dir None None monitored artist_monitor search w =
        (Inl (PyarrMissingProfile ''There is no Metadata Profile setup''),
         w @ [Sent (quality_profiles_request self), Sent (metadata_profiles_request self)]))
   \<and> (session self (sent w) (quality_profiles_request self) = Inr (JList (JObj d # ps))
        \<and> map_of d ''id'' = Some v \<longrightarrow>
      (\<forall>r \<in> set (posts (requests_of w
          (add_album self ident root_dir None metadata_profile_id monitored artist_monitor
             search w))).
        body_field ''qualityProfileId'' r = Some v))
   \<and> (session self (sent w) (metadata_profiles_request self) = Inr (JList (JObj d # ps))
        \<and> map_of d ''id'' = Some v \<longrightarrow>
      (\<forall>r \<in> set (posts (requests_of w
          (add_album self ident root_dir (Some q) None monitored artist_monitor search w))).
        body_field ''metadataProfileId'' r = Some v))
   \<and> (session self (sent w @ [quality_profiles_request self])
          (metadata_profiles_request self) = Inr (JList (JObj d # ps))
        \<and> map_of d ''id'' = Some v \<longrightarrow>
      (\<forall>r \<in> set (posts (requests_of w
          (add_album self ident root_dir None None monitored artist_monitor search w))).
        body_field ''metadataProfileId'' r = Some v))"
  by (auto simp only: add_artist_no_quality_profile add_artist_no_metadata_profile add_artist_no_metadata_profile_after_default add_artist_default_quality add_artist_default_metadata add_artist_default_metadata_after_default add_album_no_quality_profile add_album_no_metadata_profile add_album_no_metadata_profile_after_default add_album_default_quality add_album_default_metadata add_album_default_metadata_after_default)

theorem default_profiles_witness:
  "add_artist (LidarrAPI no_profiles) ''mbid'' ''/music'' None None True ''all'' False [] =
     (Inl (PyarrMissingProfile ''There is no Quality Profile setup''),
      [Sent (quality_profiles_request (LidarrAPI no_profiles))])
   \<and> add_artist (LidarrAPI no_profiles) ''mbid'' ''/music'' (Some 1) None True ''all'' False [] =
     (Inl (PyarrMissingProfile ''There is no Metadata Profile setup''),
      [Sent (metadata_profiles_request (LidarrAPI no_profiles))])
   \<and> add_artist (LidarrAPI no_metadata_profiles) ''mbid'' ''/music'' None None True ''all'' False
       [] =
     (Inl (PyarrMissingProfile ''There is no Metadata Profile setup''),
      [Sent (quality_profiles_request (LidarrAPI no_metadata_profiles)),
       Sent (metadata_profiles_request (LidarrAPI no_metadata_profiles))])
   \<and> map (body_field ''qualityProfileId'')
       (posts (requests_of []
          (add_artist (LidarrAPI sample_lidarr) ''mbid'' ''/music'' None None True ''all'' False
             []))) = [Some (JInt 4)]
   \<and> map (body_field ''metadataProfileId'')
       (posts (requests_of []
          (add_artist (LidarrAPI sample_lidarr) ''mbid'' ''/music'' None None True ''all'' False
             []))) = [Some (JInt 9)]
   \<and> map (body_field ''metadataProfileId'')
       (posts (requests_of []
          (add_artist (LidarrAPI sample_lidarr) ''mbid'' ''/music'' (Some 1) None True ''all''
             False []))) = [Some (JInt 9)]
   \<and> add_album (LidarrAPI no_profiles) ''mbid'' ''/music'' None None True ''all'' False [] =
     (Inl (PyarrMissingProfile ''There is no Quality Profile setup''),
      [Sent (quality_profiles_request (LidarrAPI no_profiles))])
   \<and> add_album (LidarrAPI no_profiles) ''mbid'' ''/music'' (Some 1) None True ''all'' False [] =
     (Inl (PyarrMissingProfile ''There is no Metadata Profile setup''),
      [Sent (metadata_profiles_request (LidarrAPI no_profiles))])
   \<and> add_album (LidarrAPI no_metadata_profiles) ''mbid'' ''/music'' None None True ''all'' False
       [] =
     (Inl (PyarrMissingProfile ''There is no Metadata Profile setup''),
      [Sent (quality_profiles_request (LidarrAPI no_metadata_profiles)),
       Sent (metadata_profiles_request (LidarrAPI no_metadata_profiles))])
   \<and> map (body_field ''qualityProfileId'')
       (posts (requests_of []
          (add_album (LidarrAPI sample_lidarr) ''mbid'' ''/music'' None None True ''all'' False
             []))) = [Some (JInt 4)]
   \<and> map (body_field ''metadataProfileId'')
       (posts (requests_of []
          (add_album (LidarrAPI sample_lidarr) ''mbid'' ''/music'' None None True ''all'' False
             []))) = [Some (JInt 9)]
   \<and> map (body_field ''metadataProfileId'')
       (posts (requests_of []
          (add_album (LidarrAPI sample_lidarr) ''mbid'' ''/music'' (Some 1) None True ''all''
             False []))) = [Some (JInt 9)]"
  using
    default_profiles [where self = "LidarrAPI no_profiles" and w = "[]" and ident = "''mbid''" and root_dir = "''/music''" and metadata_profile_id = None and monitored = True and artist_monitor = "''all''" and search = False and q = 1 and d = "[]" and ps = "[]" and v = "JNull"]
    default_profiles [where self = "LidarrAPI no_metadata_profiles" and w = "[]" and ident = "''mbid''" and root_dir = "''/music''" and metadata_profile_id = None and monitored = True and artist_monitor = "''all''" and search = False and q = 1 and d = "[(''id'', JInt 4), (''name'', JStr ''Lossless'')]" and ps = "[]" and v = "JInt 4"]
    default_profiles [where self = "LidarrAPI sample_lidarr" and w = "[]" and ident = "''mbid''" and root_dir = "''/music''" and metadata_profile_id = None and monitored = True and artist_monitor = "''all''" and search = False and q = 1 and d = "[(''id'', JInt 4), (''name'', JStr ''Lossless'')]" and ps = "[]" and v = "JInt 4"]
    default_profiles [where self = "LidarrAPI sample_lidarr" and w = "[]" and ident = "''mbid''" and root_dir = "''/music''" and metadata_profile_id = None and monitored = True and artist_monitor = "''all''" and search = False and q = 1 and d = "[(''id'', JInt 9), (''name'', JStr ''Standard'')]" and ps = "[]" and v = "JInt 9"]
  by (simp add: eval_defs request_defs sample_lidarr_def no_profiles_def no_metadata_profiles_def)

end
